theory Spec2Isabelle
  imports Complex_Main
begin

section \<open>Constants of the content script\<close>

text \<open>
  The repository holds two variants of one content script: \<^verbatim>\<open>src/content.js\<close>
  injects three toggle buttons (top, bottom, left) and runs a positioning interval for the
  left one, \<^verbatim>\<open>src/unnamed/part_000\<close> injects two (top, bottom). The storage
  helpers, \<^verbatim>\<open>applyTopState\<close>, \<^verbatim>\<open>applyBottomState\<close>,
  \<^verbatim>\<open>createTopButton\<close> and \<^verbatim>\<open>createBottomButton\<close> are the same
  text in both files, so one definition embeds both; \<^verbatim>\<open>init\<close> and the keydown handler
  take the variant as a parameter.

  JavaScript strings are embedded as \<^typ>\<open>string\<close>. The six labels are Japanese; they are
  written as their UTF-8 bytes (the encoding is injective, and the script only assigns and
  compares strings, it never measures them).
\<close>

datatype flag = Top | Bottom | Left

datatype variant = TwoToggle | ThreeToggle

definition STORAGE_KEY_TOP :: string where
  "STORAGE_KEY_TOP = ''slack-vc-top-collapsed''"

definition STORAGE_KEY_BOTTOM :: string where
  "STORAGE_KEY_BOTTOM = ''slack-vc-bottom-collapsed''"

definition STORAGE_KEY_LEFT :: string where
  "STORAGE_KEY_LEFT = ''slack-vc-left-collapsed''"

definition CLASS_TOP :: string where
  "CLASS_TOP = ''slack-vc--top-collapsed''"

definition CLASS_BOTTOM :: string where
  "CLASS_BOTTOM = ''slack-vc--bottom-collapsed''"

definition CLASS_LEFT :: string where
  "CLASS_LEFT = ''slack-vc--left-collapsed''"

definition BTN_TOP_ID :: string where
  "BTN_TOP_ID = ''slack-vc-toggle-btn-top''"

definition BTN_BOTTOM_ID :: string where
  "BTN_BOTTOM_ID = ''slack-vc-toggle-btn-bottom''"

definition BTN_LEFT_ID :: string where
  "BTN_LEFT_ID = ''slack-vc-toggle-btn-left''"

text \<open>The four icons are template literals: each starts with a line break.\<close>

definition ICON_UP :: string where
  "ICON_UP =
     ''\<newline>    <svg viewBox=\"0 0 16 16\" fill=\"none\" xmlns=\"http://www.w3.org/2000/svg\">'' @
     ''\<newline>      <path d=\"M3 10L8 5L13 10\" stroke=\"currentColor\" stroke-width=\"1.8\"'' @
     ''\<newline>            stroke-linecap=\"round\" stroke-linejoin=\"round\"/>'' @
     ''\<newline>    </svg>''"

definition ICON_DOWN :: string where
  "ICON_DOWN =
     ''\<newline>    <svg viewBox=\"0 0 16 16\" fill=\"none\" xmlns=\"http://www.w3.org/2000/svg\">'' @
     ''\<newline>      <path d=\"M3 6L8 11L13 6\" stroke=\"currentColor\" stroke-width=\"1.8\"'' @
     ''\<newline>            stroke-linecap=\"round\" stroke-linejoin=\"round\"/>'' @
     ''\<newline>    </svg>''"

definition ICON_LEFT :: string where
  "ICON_LEFT =
     ''\<newline>    <svg viewBox=\"0 0 16 16\" fill=\"none\" xmlns=\"http://www.w3.org/2000/svg\">'' @
     ''\<newline>      <path d=\"M10 3L5 8L10 13\" stroke=\"currentColor\" stroke-width=\"1.8\"'' @
     ''\<newline>            stroke-linecap=\"round\" stroke-linejoin=\"round\"/>'' @
     ''\<newline>    </svg>''"

definition ICON_RIGHT :: string where
  "ICON_RIGHT =
     ''\<newline>    <svg viewBox=\"0 0 16 16\" fill=\"none\" xmlns=\"http://www.w3.org/2000/svg\">'' @
     ''\<newline>      <path d=\"M6 3L11 8L6 13\" stroke=\"currentColor\" stroke-width=\"1.8\"'' @
     ''\<newline>            stroke-linecap=\"round\" stroke-linejoin=\"round\"/>'' @
     ''\<newline>    </svg>''"

text \<open>
  The labels, inline literals of the three apply functions. In code points:
  \<^verbatim>\<open>LABEL_TOP_SHOW\<close> is U+30D8 U+30C3 U+30C0 U+30FC U+3092 U+8868 U+793A (show the header),
  \<^verbatim>\<open>LABEL_TOP_HIDE\<close> the same with U+975E before U+8868 (hide the header);
  \<^verbatim>\<open>LABEL_BOTTOM_SHOW\<close> is U+5165 U+529B U+30A8 U+30EA U+30A2 U+3092 U+8868 U+793A
  (show the input area) and \<^verbatim>\<open>LABEL_LEFT_SHOW\<close> is
  U+30B5 U+30A4 U+30C9 U+30D0 U+30FC U+3092 U+8868 U+793A (show the sidebar), each with its
  \<^verbatim>\<open>HIDE\<close> form inserting U+975E.
\<close>

definition LABEL_TOP_SHOW :: string where
  "LABEL_TOP_SHOW =
     [CHR 0xE3, CHR 0x83, CHR 0x98, CHR 0xE3, CHR 0x83, CHR 0x83, CHR 0xE3, CHR 0x83, CHR 0x80,
      CHR 0xE3, CHR 0x83, CHR 0xBC, CHR 0xE3, CHR 0x82, CHR 0x92, CHR 0xE8, CHR 0xA1, CHR 0xA8,
      CHR 0xE7, CHR 0xA4, CHR 0xBA]"

definition LABEL_TOP_HIDE :: string where
  "LABEL_TOP_HIDE =
     [CHR 0xE3, CHR 0x83, CHR 0x98, CHR 0xE3, CHR 0x83, CHR 0x83, CHR 0xE3, CHR 0x83, CHR 0x80,
      CHR 0xE3, CHR 0x83, CHR 0xBC, CHR 0xE3, CHR 0x82, CHR 0x92, CHR 0xE9, CHR 0x9D, CHR 0x9E,
      CHR 0xE8, CHR 0xA1, CHR 0xA8, CHR 0xE7, CHR 0xA4, CHR 0xBA]"

definition LABEL_BOTTOM_SHOW :: string where
  "LABEL_BOTTOM_SHOW =
     [CHR 0xE5, CHR 0x85, CHR 0xA5, CHR 0xE5, CHR 0x8A, CHR 0x9B, CHR 0xE3, CHR 0x82, CHR 0xA8,
      CHR 0xE3, CHR 0x83, CHR 0xAA, CHR 0xE3, CHR 0x82, CHR 0xA2, CHR 0xE3, CHR 0x82, CHR 0x92,
      CHR 0xE8, CHR 0xA1, CHR 0xA8, CHR 0xE7, CHR 0xA4, CHR 0xBA]"

definition LABEL_BOTTOM_HIDE :: string where
  "LABEL_BOTTOM_HIDE =
     [CHR 0xE5, CHR 0x85, CHR 0xA5, CHR 0xE5, CHR 0x8A, CHR 0x9B, CHR 0xE3, CHR 0x82, CHR 0xA8,
      CHR 0xE3, CHR 0x83, CHR 0xAA, CHR 0xE3, CHR 0x82, CHR 0xA2, CHR 0xE3, CHR 0x82, CHR 0x92,
      CHR 0xE9, CHR 0x9D, CHR 0x9E, CHR 0xE8, CHR 0xA1, CHR 0xA8, CHR 0xE7, CHR 0xA4, CHR 0xBA]"

definition LABEL_LEFT_SHOW :: string where
  "LABEL_LEFT_SHOW =
     [CHR 0xE3, CHR 0x82, CHR 0xB5, CHR 0xE3, CHR 0x82, CHR 0xA4, CHR 0xE3, CHR 0x83, CHR 0x89,
      CHR 0xE3, CHR 0x83, CHR 0x90, CHR 0xE3, CHR 0x83, CHR 0xBC, CHR 0xE3, CHR 0x82, CHR 0x92,
      CHR 0xE8, CHR 0xA1, CHR 0xA8, CHR 0xE7, CHR 0xA4, CHR 0xBA]"

definition LABEL_LEFT_HIDE :: string where
  "LABEL_LEFT_HIDE =
     [CHR 0xE3, CHR 0x82, CHR 0xB5, CHR 0xE3, CHR 0x82, CHR 0xA4, CHR 0xE3, CHR 0x83, CHR 0x89,
      CHR 0xE3, CHR 0x83, CHR 0x90, CHR 0xE3, CHR 0x83, CHR 0xBC, CHR 0xE3, CHR 0x82, CHR 0x92,
      CHR 0xE9, CHR 0x9D, CHR 0x9E, CHR 0xE8, CHR 0xA1, CHR 0xA8, CHR 0xE7, CHR 0xA4, CHR 0xBA]"

text \<open>The constants of one flag, for statements that range over the flags.\<close>

fun STORAGE_KEY :: "flag \<Rightarrow> string" where
  "STORAGE_KEY Top = STORAGE_KEY_TOP"
| "STORAGE_KEY Bottom = STORAGE_KEY_BOTTOM"
| "STORAGE_KEY Left = STORAGE_KEY_LEFT"

fun CLASS :: "flag \<Rightarrow> string" where
  "CLASS Top = CLASS_TOP"
| "CLASS Bottom = CLASS_BOTTOM"
| "CLASS Left = CLASS_LEFT"

fun BTN_ID :: "flag \<Rightarrow> string" where
  "BTN_ID Top = BTN_TOP_ID"
| "BTN_ID Bottom = BTN_BOTTOM_ID"
| "BTN_ID Left = BTN_LEFT_ID"

fun flags :: "variant \<Rightarrow> flag list" where
  "flags TwoToggle = [Top, Bottom]"
| "flags ThreeToggle = [Top, Bottom, Left]"

section \<open>The page, the stores and the script's state\<close>

text \<open>
  Elements are objects with identity: the store \<open>heap\<close> maps a reference to the element's
  fields, \<open>document\<close> lists the references of the elements attached to the document in tree
  order (the children appended to the body come last), and \<open>next_addr\<close> is the next reference
  \<^verbatim>\<open>document.createElement\<close> hands out. A click listener registered by
  \<^verbatim>\<open>createTopButton\<close> (and its siblings) is the closure of one flag over the button it is
  registered on, so an element's listeners are a list of flags. \<open>innerHTML\<close> is the markup last
  assigned to the element.
\<close>

type_synonym addr = nat

record element =
  el_id :: string
  className :: string
  el_type :: string
  innerHTML :: string
  attributes :: "string \<rightharpoonup> string"
  style :: "string \<rightharpoonup> string"
  click_listeners :: "flag list"

text \<open>
  What the extension store holds for a key is a JSON value; \<open>JUndefined\<close> is what reading a
  missing property gives.
\<close>

datatype jsvalue =
    JUndefined
  | JNull
  | JBool bool
  | JNum real
  | JStr string
  | JArr "jsvalue list"
  | JObj "(string \<times> jsvalue) list"

text \<open>
  How a call of \<^verbatim>\<open>chrome.storage.local.get\<close> or \<^verbatim>\<open>set\<close> behaves: it completes
  and calls back, it calls back with \<^verbatim>\<open>chrome.runtime.lastError\<close> set, or it throws
  synchronously (the API is missing or the extension context is gone), which is the case the
  script's \<^verbatim>\<open>try\<close>/\<^verbatim>\<open>catch\<close> falls back from.
\<close>

datatype chrome_status = Works | ReportsLastError | ThrowsSync

datatype js_error = SecurityError

datatype 'a outcome = Returns 'a | Throws js_error

text \<open>
  A \<open>poller\<close> is a polling interval that \<^verbatim>\<open>init\<close> has registered with
  \<^verbatim>\<open>setInterval\<close> and that is not cleared yet, with what its callback closes over: the
  three values read from storage and \<open>elapsed\<close>. \<open>pollers\<close> lists them in the order of
  registration.

  \<open>localStorage\<close> is \<open>None\<close> when the page denies access to its storage: then
  \<^verbatim>\<open>getItem\<close> and \<^verbatim>\<open>setItem\<close> throw. \<open>lastLeftPos\<close> is the script's one
  variable outside the page, \<open>console\<close> the messages it has passed to
  \<^verbatim>\<open>console.warn\<close>.
\<close>

record poller =
  p_top :: bool
  p_bottom :: bool
  p_left :: bool
  p_elapsed :: nat

record state =
  body_classes :: "string list"
  document :: "addr list"
  heap :: "addr \<Rightarrow> element"
  next_addr :: addr
  chrome_status :: chrome_status
  chrome_items :: "string \<rightharpoonup> jsvalue"
  localStorage :: "(string \<rightharpoonup> string) option"
  lastLeftPos :: string
  console :: "string list"
  pollers :: "poller list"

subsection \<open>The DOM operations the script calls\<close>

definition classList_contains :: "string list \<Rightarrow> string \<Rightarrow> bool" where
  "classList_contains cl token = (token \<in> set cl)"

text \<open>\<^verbatim>\<open>classList.toggle(token, force)\<close>: adds the token when \<open>force\<close>, removes it otherwise.\<close>

definition classList_toggle :: "string list \<Rightarrow> string \<Rightarrow> bool \<Rightarrow> string list" where
  "classList_toggle cl token force =
     (if force then (if token \<in> set cl then cl else cl @ [token]) else removeAll token cl)"

definition getElementById :: "state \<Rightarrow> string \<Rightarrow> addr option" where
  "getElementById s i = find (\<lambda>a. el_id (heap s a) = i) (document s)"

definition update_element :: "addr \<Rightarrow> (element \<Rightarrow> element) \<Rightarrow> state \<Rightarrow> state" where
  "update_element b f s = s\<lparr>heap := (heap s)(b := f (heap s b))\<rparr>"

definition setAttribute :: "addr \<Rightarrow> string \<Rightarrow> string \<Rightarrow> state \<Rightarrow> state" where
  "setAttribute b name v s =
     update_element b (\<lambda>e. e\<lparr>attributes := (attributes e)(name \<mapsto> v)\<rparr>) s"

definition set_style :: "addr \<Rightarrow> string \<Rightarrow> string \<Rightarrow> state \<Rightarrow> state" where
  "set_style b prop v s = update_element b (\<lambda>e. e\<lparr>style := (style e)(prop \<mapsto> v)\<rparr>) s"

text \<open>A new button element: no id, no class, no content; a button's type defaults to submit.\<close>

definition new_button :: element where
  "new_button =
     \<lparr>el_id = [], className = [], el_type = ''submit'', innerHTML = [],
      attributes = Map.empty, style = Map.empty, click_listeners = []\<rparr>"

definition createElement :: "state \<Rightarrow> addr \<times> state" where
  "createElement s =
     (next_addr s, s\<lparr>heap := (heap s)(next_addr s := new_button), next_addr := Suc (next_addr s)\<rparr>)"

text \<open>\<^verbatim>\<open>appendChild\<close> moves a node that is already attached.\<close>

definition appendChild :: "addr \<Rightarrow> state \<Rightarrow> state" where
  "appendChild b s = s\<lparr>document := removeAll b (document s) @ [b]\<rparr>"

definition console_warn :: "string \<Rightarrow> state \<Rightarrow> state" where
  "console_warn msg s = s\<lparr>console := console s @ [msg]\<rparr>"

section \<open>Storage helpers\<close>

text \<open>
  \<^verbatim>\<open>getStoredState\<close> returns a promise; the outcome is what the promise settles to.
  On the extension store it resolves to \<^verbatim>\<open>result[key] === true\<close>, with a storage error to
  \<open>False\<close> after a warning; when the call throws, the \<^verbatim>\<open>catch\<close> resolves to
  \<^verbatim>\<open>localStorage.getItem(key) === 'true'\<close>, and an exception of that read rejects the
  promise. The completion callback is run at once.
\<close>

definition strict_equals_true :: "jsvalue \<Rightarrow> bool" where
  "strict_equals_true v = (case v of JBool b \<Rightarrow> b | _ \<Rightarrow> False)"

definition getStoredState :: "string \<Rightarrow> state \<Rightarrow> bool outcome \<times> state" where
  "getStoredState key s =
     (case chrome_status s of
        Works \<Rightarrow>
          (Returns (strict_equals_true
             (case chrome_items s key of None \<Rightarrow> JUndefined | Some v \<Rightarrow> v)), s)
      | ReportsLastError \<Rightarrow>
          (Returns False, console_warn ''[Slack VC] storage read error:'' s)
      | ThrowsSync \<Rightarrow>
          (case localStorage s of
             None \<Rightarrow> (Throws SecurityError, s)
           | Some items \<Rightarrow> (Returns (items key = Some ''true''), s)))"

definition String_of_bool :: "bool \<Rightarrow> string" where
  "String_of_bool v = (if v then ''true'' else ''false'')"

definition setStoredState :: "string \<Rightarrow> bool \<Rightarrow> state \<Rightarrow> unit outcome \<times> state" where
  "setStoredState key v s =
     (case chrome_status s of
        Works \<Rightarrow> (Returns (), s\<lparr>chrome_items := (chrome_items s)(key \<mapsto> JBool v)\<rparr>)
      | ReportsLastError \<Rightarrow>
          (Returns (), console_warn ''[Slack VC] storage write error:'' s)
      | ThrowsSync \<Rightarrow>
          (case localStorage s of
             None \<Rightarrow> (Throws SecurityError, s)
           | Some items \<Rightarrow>
               (Returns (), s\<lparr>localStorage := Some (items(key \<mapsto> String_of_bool v))\<rparr>)))"

section \<open>State application\<close>

definition applyTopState :: "bool \<Rightarrow> addr option \<Rightarrow> state \<Rightarrow> state" where
  "applyTopState collapsed btn s =
     (let s1 = s\<lparr>body_classes := classList_toggle (body_classes s) CLASS_TOP collapsed\<rparr>
      in case btn of
           None \<Rightarrow> s1
         | Some b \<Rightarrow>
             (let s2 = update_element b
                         (\<lambda>e. e\<lparr>innerHTML := (if collapsed then ICON_DOWN else ICON_UP)\<rparr>) s1;
                  label = (if collapsed then LABEL_TOP_SHOW else LABEL_TOP_HIDE);
                  s3 = setAttribute b ''data-tooltip'' label s2
              in setAttribute b ''aria-label'' label s3))"

definition applyBottomState :: "bool \<Rightarrow> addr option \<Rightarrow> state \<Rightarrow> state" where
  "applyBottomState collapsed btn s =
     (let s1 = s\<lparr>body_classes := classList_toggle (body_classes s) CLASS_BOTTOM collapsed\<rparr>
      in case btn of
           None \<Rightarrow> s1
         | Some b \<Rightarrow>
             (let s2 = update_element b
                         (\<lambda>e. e\<lparr>innerHTML := (if collapsed then ICON_UP else ICON_DOWN)\<rparr>) s1;
                  label = (if collapsed then LABEL_BOTTOM_SHOW else LABEL_BOTTOM_HIDE);
                  s3 = setAttribute b ''data-tooltip'' label s2
              in setAttribute b ''aria-label'' label s3))"

definition applyLeftState :: "bool \<Rightarrow> addr option \<Rightarrow> state \<Rightarrow> state" where
  "applyLeftState collapsed btn s =
     (let s1 = s\<lparr>body_classes := classList_toggle (body_classes s) CLASS_LEFT collapsed\<rparr>
      in case btn of
           None \<Rightarrow> s1
         | Some b \<Rightarrow>
             (let s2 = update_element b
                         (\<lambda>e. e\<lparr>innerHTML := (if collapsed then ICON_RIGHT else ICON_LEFT)\<rparr>) s1;
                  label = (if collapsed then LABEL_LEFT_SHOW else LABEL_LEFT_HIDE);
                  s3 = setAttribute b ''data-tooltip'' label s2;
                  s4 = setAttribute b ''aria-label'' label s3;
                  s5 = set_style b ''top'' ''50%'' s4
              in set_style b ''transform'' ''translateY(-50%)'' s5))"

fun applyState :: "flag \<Rightarrow> bool \<Rightarrow> addr option \<Rightarrow> state \<Rightarrow> state" where
  "applyState Top = applyTopState"
| "applyState Bottom = applyBottomState"
| "applyState Left = applyLeftState"

section \<open>Button creation and the click handlers\<close>

text \<open>
  The click handler of a button reads the current state back from the body class, flips it,
  applies it to the button the handler was created with, and persists it. The handler ends
  with the call of \<^verbatim>\<open>setStoredState\<close>, so it throws exactly when that call does.
\<close>

definition topButton_onClick :: "addr \<Rightarrow> state \<Rightarrow> unit outcome \<times> state" where
  "topButton_onClick btn s =
     (let nowCollapsed = classList_contains (body_classes s) CLASS_TOP;
          newState = (\<not> nowCollapsed);
          s1 = applyTopState newState (Some btn) s
      in setStoredState STORAGE_KEY_TOP newState s1)"

definition bottomButton_onClick :: "addr \<Rightarrow> state \<Rightarrow> unit outcome \<times> state" where
  "bottomButton_onClick btn s =
     (let nowCollapsed = classList_contains (body_classes s) CLASS_BOTTOM;
          newState = (\<not> nowCollapsed);
          s1 = applyBottomState newState (Some btn) s
      in setStoredState STORAGE_KEY_BOTTOM newState s1)"

definition leftButton_onClick :: "addr \<Rightarrow> state \<Rightarrow> unit outcome \<times> state" where
  "leftButton_onClick btn s =
     (let nowCollapsed = classList_contains (body_classes s) CLASS_LEFT;
          newState = (\<not> nowCollapsed);
          s1 = applyLeftState newState (Some btn) s
      in setStoredState STORAGE_KEY_LEFT newState s1)"

fun onClick :: "flag \<Rightarrow> addr \<Rightarrow> state \<Rightarrow> unit outcome \<times> state" where
  "onClick Top = topButton_onClick"
| "onClick Bottom = bottomButton_onClick"
| "onClick Left = leftButton_onClick"

definition addEventListener_click :: "addr \<Rightarrow> flag \<Rightarrow> state \<Rightarrow> state" where
  "addEventListener_click b f s =
     update_element b (\<lambda>e. e\<lparr>click_listeners := click_listeners e @ [f]\<rparr>) s"

text \<open>
  A click on an element (by the user, or \<^verbatim>\<open>btn.click()\<close>) runs the element's click
  listeners in order. An exception of a listener is reported by the event dispatch and does
  not reach the code that clicked, so only the listener's state is kept.
\<close>

definition click :: "addr \<Rightarrow> state \<Rightarrow> state" where
  "click b s = foldl (\<lambda>s' f. snd (onClick f b s')) s (click_listeners (heap s b))"

definition createTopButton :: "bool \<Rightarrow> state \<Rightarrow> addr \<times> state" where
  "createTopButton initialCollapsed s =
     (let (btn, s1) = createElement s;
          s2 = update_element btn (\<lambda>e. e\<lparr>el_id := BTN_TOP_ID\<rparr>) s1;
          s3 = update_element btn
                 (\<lambda>e. e\<lparr>className := ''slack-vc-toggle-btn slack-vc-toggle-btn--top''\<rparr>) s2;
          s4 = update_element btn (\<lambda>e. e\<lparr>el_type := ''button''\<rparr>) s3;
          s5 = applyTopState initialCollapsed (Some btn) s4
      in (btn, addEventListener_click btn Top s5))"

definition createBottomButton :: "bool \<Rightarrow> state \<Rightarrow> addr \<times> state" where
  "createBottomButton initialCollapsed s =
     (let (btn, s1) = createElement s;
          s2 = update_element btn (\<lambda>e. e\<lparr>el_id := BTN_BOTTOM_ID\<rparr>) s1;
          s3 = update_element btn
                 (\<lambda>e. e\<lparr>className := ''slack-vc-toggle-btn slack-vc-toggle-btn--bottom''\<rparr>) s2;
          s4 = update_element btn (\<lambda>e. e\<lparr>el_type := ''button''\<rparr>) s3;
          s5 = applyBottomState initialCollapsed (Some btn) s4
      in (btn, addEventListener_click btn Bottom s5))"

definition createLeftButton :: "bool \<Rightarrow> state \<Rightarrow> addr \<times> state" where
  "createLeftButton initialCollapsed s =
     (let (btn, s1) = createElement s;
          s2 = update_element btn (\<lambda>e. e\<lparr>el_id := BTN_LEFT_ID\<rparr>) s1;
          s3 = update_element btn
                 (\<lambda>e. e\<lparr>className := ''slack-vc-toggle-btn slack-vc-toggle-btn--left''\<rparr>) s2;
          s4 = update_element btn (\<lambda>e. e\<lparr>el_type := ''button''\<rparr>) s3;
          s5 = applyLeftState initialCollapsed (Some btn) s4
      in (btn, addEventListener_click btn Left s5))"

section \<open>Initialization\<close>

definition maxWait :: nat where
  "maxWait = 15000"

definition interval :: nat where
  "interval = 300"

text \<open>
  What the tick that injects does after \<^verbatim>\<open>clearInterval\<close>: the three-toggle script
  creates, appends and applies three buttons, the two-toggle script two. \<open>found\<close> is the value
  of \<open>elapsed\<close> at that tick and whether the container query matched.
\<close>

definition injectButtons ::
  "variant \<Rightarrow> bool \<Rightarrow> bool \<Rightarrow> bool \<Rightarrow> nat \<times> bool \<Rightarrow> state \<Rightarrow> state" where
  "injectButtons v topCollapsed bottomCollapsed leftCollapsed found s =
     (let (elapsed, container) = found;
          timed_out = (\<not> container \<and> elapsed \<ge> maxWait);
          warning = ''[Slack VC] Timed out waiting for Slack UI. Buttons injected anyway.''
      in case v of
           ThreeToggle \<Rightarrow>
             (let (topBtn, s1) = createTopButton topCollapsed s;
                  (bottomBtn, s2) = createBottomButton bottomCollapsed s1;
                  (leftBtn, s3) = createLeftButton leftCollapsed s2;
                  s4 = appendChild topBtn s3;
                  s5 = appendChild bottomBtn s4;
                  s6 = appendChild leftBtn s5;
                  s7 = applyTopState topCollapsed (Some topBtn) s6;
                  s8 = applyBottomState bottomCollapsed (Some bottomBtn) s7;
                  s9 = applyLeftState leftCollapsed (Some leftBtn) s8
              in if timed_out then console_warn warning s9 else s9)
         | TwoToggle \<Rightarrow>
             (let (topBtn, s1) = createTopButton topCollapsed s;
                  (bottomBtn, s2) = createBottomButton bottomCollapsed s1;
                  s3 = appendChild topBtn s2;
                  s4 = appendChild bottomBtn s3;
                  s5 = applyTopState topCollapsed (Some topBtn) s4;
                  s6 = applyBottomState bottomCollapsed (Some bottomBtn) s5
              in if timed_out then console_warn warning s6 else s6))"

text \<open>
  \<^verbatim>\<open>init\<close> is an async function: the duplicate guard, the reads (the promises of
  \<^verbatim>\<open>Promise.all\<close> are started in order; the first rejection rejects
  \<^verbatim>\<open>init\<close>), and then the registration of the polling interval, after which its promise
  settles. Nothing is injected inside the call: the buttons are created by a later tick of the
  interval. The reads complete within the call, as in \<open>getStoredState\<close>. The outcome is what
  the promise settles to. The two-toggle script reads two keys;
  its third result below is a placeholder that \<open>injectButtons\<close> does not look at.
\<close>

definition init :: "variant \<Rightarrow> state \<Rightarrow> unit outcome \<times> state" where
  "init v s =
     (if getElementById s BTN_TOP_ID \<noteq> None then (Returns (), s)
      else
        (let (r1, s1) = getStoredState STORAGE_KEY_TOP s;
             (r2, s2) = getStoredState STORAGE_KEY_BOTTOM s1;
             (r3, s3) = (case v of
                           ThreeToggle \<Rightarrow> getStoredState STORAGE_KEY_LEFT s2
                         | TwoToggle \<Rightarrow> (Returns False, s2))
         in case r1 of
              Throws e \<Rightarrow> (Throws e, s3)
            | Returns topCollapsed \<Rightarrow>
                (case r2 of
                   Throws e \<Rightarrow> (Throws e, s3)
                 | Returns bottomCollapsed \<Rightarrow>
                     (case r3 of
                        Throws e \<Rightarrow> (Throws e, s3)
                      | Returns leftCollapsed \<Rightarrow>
                          (Returns (),
                           s3\<lparr>pollers := pollers s3 @
                              [\<lparr>p_top = topCollapsed, p_bottom = bottomCollapsed,
                                p_left = leftCollapsed, p_elapsed = 0\<rparr>]\<rparr>)))))"

definition clearInterval :: "nat \<Rightarrow> state \<Rightarrow> state" where
  "clearInterval i s = s\<lparr>pollers := take i (pollers s) @ drop (Suc i) (pollers s)\<rparr>"

text \<open>
  One tick of the polling interval at position \<open>i\<close> of \<open>pollers\<close>; \<open>container\<close> tells whether
  one of the two container selectors matches at this tick. The tick adds the interval to
  \<open>elapsed\<close>; when the container is there or the time is up it clears the interval and injects,
  without looking at the guard of \<^verbatim>\<open>init\<close> again. A position with no interval has no
  callback to run.
\<close>

definition waitForSlack_tick :: "variant \<Rightarrow> bool \<Rightarrow> nat \<Rightarrow> state \<Rightarrow> state" where
  "waitForSlack_tick v container i s =
     (if i < length (pollers s) then
        (let p = pollers s ! i;
             elapsed' = p_elapsed p + interval
         in if container \<or> elapsed' \<ge> maxWait then
              injectButtons v (p_top p) (p_bottom p) (p_left p) (elapsed', container)
                (clearInterval i s)
            else s\<lparr>pollers := (pollers s)[i := p\<lparr>p_elapsed := elapsed'\<rparr>]\<rparr>)
      else s)"

text \<open>
  The ticks of one interval, one after the other with nothing else in between, up to the one
  that injects. \<open>container_at e\<close> tells whether the container is there at the tick that raises
  \<open>elapsed\<close> to \<open>e\<close>.
\<close>

function run_waitForSlack :: "variant \<Rightarrow> (nat \<Rightarrow> bool) \<Rightarrow> nat \<Rightarrow> state \<Rightarrow> state" where
  "run_waitForSlack v container_at i s =
     (if i < length (pollers s) then
        (let elapsed' = p_elapsed (pollers s ! i) + interval;
             container = container_at elapsed'
         in if container \<or> elapsed' \<ge> maxWait then waitForSlack_tick v container i s
            else run_waitForSlack v container_at i (waitForSlack_tick v container i s))
      else s)"
  by pat_completeness auto
termination
  by (relation "measure (\<lambda>(v, c, i, s). maxWait - p_elapsed (pollers s ! i))")
     (auto simp: waitForSlack_tick_def Let_def maxWait_def interval_def)

declare run_waitForSlack.simps [simp del]

text \<open>
  An undisturbed initialization: \<^verbatim>\<open>init\<close>, then the ticks of the interval it has
  registered (the one at the end of \<open>pollers\<close>) up to the injection. Where \<^verbatim>\<open>init\<close> has
  returned at the guard or has been rejected, no interval was registered and no tick runs.
\<close>

definition initialize :: "variant \<Rightarrow> (nat \<Rightarrow> bool) \<Rightarrow> state \<Rightarrow> unit outcome \<times> state" where
  "initialize v container_at s =
     (let (r, s1) = init v s
      in (r, run_waitForSlack v container_at (length (pollers s)) s1))"

section \<open>Keyboard shortcuts\<close>

text \<open>
  \<^verbatim>\<open>toLowerCase\<close> on the ASCII letters: a code in 65..90 gets 32 added, which sets
  bit 5. No character outside ASCII lowers to \<open>h\<close>, \<open>j\<close> or \<open>l\<close>, so the three
  comparisons of the handler are decided by this part of the conversion.
\<close>

definition lower_char :: "char \<Rightarrow> char" where
  "lower_char c =
     (let n = (of_char c :: nat)
      in if 65 \<le> n \<and> n \<le> 90
         then (case c of Char b0 b1 b2 b3 b4 b5 b6 b7 \<Rightarrow> Char b0 b1 b2 b3 b4 True b6 b7)
         else c)"

definition toLowerCase :: "string \<Rightarrow> string" where
  "toLowerCase str = map lower_char str"

text \<open>The letter of a flag's shortcut: Alt+Shift+H toggles top, J bottom, L the left sidebar.\<close>

fun shortcut_letter :: "flag \<Rightarrow> string" where
  "shortcut_letter Top = ''h''"
| "shortcut_letter Bottom = ''j''"
| "shortcut_letter Left = ''l''"

record key_event =
  altKey :: bool
  shiftKey :: bool
  key :: string

definition click_if_present :: "addr option \<Rightarrow> state \<Rightarrow> state" where
  "click_if_present btn s = (case btn of None \<Rightarrow> s | Some b \<Rightarrow> click b s)"

text \<open>
  The keydown handler; the first component of the result tells whether it called
  \<^verbatim>\<open>preventDefault\<close>. The branch for \<open>l\<close> is in the three-toggle script only.
\<close>

definition keydown :: "variant \<Rightarrow> key_event \<Rightarrow> state \<Rightarrow> bool \<times> state" where
  "keydown v e s =
     (if altKey e \<and> shiftKey e then
        (if toLowerCase (key e) = ''h'' then
           (True, click_if_present (getElementById s BTN_TOP_ID) s)
         else if toLowerCase (key e) = ''j'' then
           (True, click_if_present (getElementById s BTN_BOTTOM_ID) s)
         else if v = ThreeToggle \<and> toLowerCase (key e) = ''l'' then
           (True, click_if_present (getElementById s BTN_LEFT_ID) s)
         else (False, s))
      else (False, s))"

section \<open>The left button's positioning interval\<close>

text \<open>
  The host page is read through five selectors; for each, the bounding box of the first match,
  or \<open>None\<close>. Pixel values are IEEE doubles in the browser and real numbers here: the tick
  adds and subtracts small constants and compares with zero. The conversion of a number to a
  string (the language's own, in \<^verbatim>\<open>targetLeft + 'px'\<close>) is a parameter of the tick.
\<close>

record rect =
  rect_left :: real
  rect_right :: real

record host_page =
  resizer_sidebar :: "rect option"
  view_contents_sidebar :: "rect option"
  ia4_client_sidebar :: "rect option"
  tab_rail :: "rect option"
  ia4_tab_rail :: "rect option"

definition or_else :: "'a option \<Rightarrow> 'a option \<Rightarrow> 'a option" where
  "or_else a b = (case a of None \<Rightarrow> b | Some x \<Rightarrow> Some x)"

definition targetLeft :: "host_page \<Rightarrow> bool \<Rightarrow> real" where
  "targetLeft host collapsed =
     (if \<not> collapsed then
        (let resizer = resizer_sidebar host;
             sidebar = or_else (view_contents_sidebar host) (ia4_client_sidebar host)
         in if resizer \<noteq> None \<and> rect_left (the resizer) > 0
            then rect_left (the resizer) + 4 - 14
            else if sidebar \<noteq> None then rect_right (the sidebar) - 14
            else 0)
      else
        (let tabRail = or_else (tab_rail host) (ia4_tab_rail host)
         in if tabRail \<noteq> None then rect_right (the tabRail) - 14 else 0))"

definition positioning_tick :: "(real \<Rightarrow> string) \<Rightarrow> host_page \<Rightarrow> state \<Rightarrow> state" where
  "positioning_tick num_to_string host s =
     (case getElementById s BTN_LEFT_ID of
        None \<Rightarrow> s
      | Some btn \<Rightarrow>
          (let collapsed = classList_contains (body_classes s) CLASS_LEFT;
               target = targetLeft host collapsed
           in if target > 0 then
                (let newPos = num_to_string target @ ''px''
                 in if newPos \<noteq> lastLeftPos s
                    then (set_style btn ''left'' newPos s)\<lparr>lastLeftPos := newPos\<rparr>
                    else s)
              else s))"

text \<open>A page on which the script has not run yet: no element, no class, empty stores.\<close>

definition empty_page :: state where
  "empty_page =
     \<lparr>body_classes = [], document = [], heap = (\<lambda>_. new_button), next_addr = 0,
      chrome_status = Works, chrome_items = Map.empty, localStorage = Some Map.empty,
      lastLeftPos = [], console = [], pollers = []\<rparr>"

section \<open>Basic facts about the embedded operations\<close>

lemma classList_contains_toggle:
  "classList_contains (classList_toggle cl t force) t' =
     (if t' = t then force else classList_contains cl t')"
  by (auto simp: classList_contains_def classList_toggle_def)

lemma classList_contains_Nil: "classList_contains [] t = False"
  by (simp add: classList_contains_def)

lemma CLASS_inject: "(CLASS f = CLASS g) = (f = g)"
  by (cases f; cases g) (simp_all add: CLASS_TOP_def CLASS_BOTTOM_def CLASS_LEFT_def)

lemma body_classes_update_element [simp]:
  "body_classes (update_element b g s) = body_classes s"
  by (simp add: update_element_def)

lemma body_classes_setAttribute [simp]:
  "body_classes (setAttribute b n v s) = body_classes s"
  by (simp add: setAttribute_def)

lemma body_classes_set_style [simp]:
  "body_classes (set_style b n v s) = body_classes s"
  by (simp add: set_style_def)

lemma body_classes_applyState:
  "body_classes (applyState f c btn s) = classList_toggle (body_classes s) (CLASS f) c"
  by (cases f; cases btn)
     (simp_all add: applyTopState_def applyBottomState_def applyLeftState_def Let_def)

lemma body_classes_setStoredState [simp]:
  "body_classes (snd (setStoredState k v s)) = body_classes s"
  by (simp add: setStoredState_def console_warn_def split: chrome_status.splits option.splits)

lemma heap_setStoredState [simp]:
  "heap (snd (setStoredState k v s)) = heap s"
  by (simp add: setStoredState_def console_warn_def split: chrome_status.splits option.splits)

lemma onClick_eq:
  "onClick f b s =
     setStoredState (STORAGE_KEY f) (\<not> classList_contains (body_classes s) (CLASS f))
       (applyState f (\<not> classList_contains (body_classes s) (CLASS f)) (Some b) s)"
  by (cases f)
     (simp_all add: topButton_onClick_def bottomButton_onClick_def leftButton_onClick_def Let_def)

lemma getStoredState_rejects:
  "chrome_status s = ThrowsSync \<Longrightarrow> localStorage s = None \<Longrightarrow>
     getStoredState k s = (Throws SecurityError, s)"
  by (simp add: getStoredState_def)

lemma applyState_None:
  "applyState f c None s = s\<lparr>body_classes := classList_toggle (body_classes s) (CLASS f) c\<rparr>"
  by (cases f) (simp_all add: applyTopState_def applyBottomState_def applyLeftState_def)

lemma heap_update_element:
  "heap (update_element b g s) = (heap s)(b := g (heap s b))"
  by (simp add: update_element_def)

lemma heap_applyState_other:
  "a \<noteq> b \<Longrightarrow> heap (applyState f c (Some b) s) a = heap s a"
  by (cases f)
     (simp_all add: applyTopState_def applyBottomState_def applyLeftState_def Let_def
        setAttribute_def set_style_def heap_update_element)

lemma classList_contains_applyState:
  "classList_contains (body_classes (applyState f c btn s)) t =
     (if t = CLASS f then c else classList_contains (body_classes s) t)"
  by (simp add: body_classes_applyState classList_contains_toggle)

lemma body_classes_onClick:
  "body_classes (snd (onClick f b s)) =
     classList_toggle (body_classes s) (CLASS f) (\<not> classList_contains (body_classes s) (CLASS f))"
  by (simp add: onClick_eq body_classes_applyState)

lemma heap_onClick:
  "heap (snd (onClick f b s)) =
     heap (applyState f (\<not> classList_contains (body_classes s) (CLASS f)) (Some b) s)"
  by (simp add: onClick_eq)

lemma applyState_shape:
  "applyState f c btn s =
     s\<lparr>body_classes := classList_toggle (body_classes s) (CLASS f) c,
       heap := heap (applyState f c btn s)\<rparr>"
  by (cases f; cases btn)
     (simp_all add: applyTopState_def applyBottomState_def applyLeftState_def Let_def
        setAttribute_def set_style_def update_element_def)

lemma applyState_stores [simp]:
  "chrome_status (applyState f c btn s) = chrome_status s"
  "chrome_items (applyState f c btn s) = chrome_items s"
  "localStorage (applyState f c btn s) = localStorage s"
  "document (applyState f c btn s) = document s"
  "next_addr (applyState f c btn s) = next_addr s"
  "console (applyState f c btn s) = console s"
  "lastLeftPos (applyState f c btn s) = lastLeftPos s"
  "pollers (applyState f c btn s) = pollers s"
  by (subst applyState_shape, simp)+

subsection \<open>Creation, injection and initialization\<close>

lemma update_element_fields [simp]:
  "document (update_element b g s) = document s"
  "next_addr (update_element b g s) = next_addr s"
  "chrome_status (update_element b g s) = chrome_status s"
  "chrome_items (update_element b g s) = chrome_items s"
  "localStorage (update_element b g s) = localStorage s"
  "lastLeftPos (update_element b g s) = lastLeftPos s"
  "pollers (update_element b g s) = pollers s"
  "console (update_element b g s) = console s"
  by (simp_all add: update_element_def)

lemma heap_update_element_at:
  "heap (update_element b g s) a = (if a = b then g (heap s b) else heap s a)"
  by (simp add: update_element_def)

lemma createElement_eq:
  "fst (createElement s) = next_addr s"
  "body_classes (snd (createElement s)) = body_classes s"
  "document (snd (createElement s)) = document s"
  "next_addr (snd (createElement s)) = Suc (next_addr s)"
  "heap (snd (createElement s)) a = (if a = next_addr s then new_button else heap s a)"
  "chrome_status (snd (createElement s)) = chrome_status s"
  "chrome_items (snd (createElement s)) = chrome_items s"
  "localStorage (snd (createElement s)) = localStorage s"
  "lastLeftPos (snd (createElement s)) = lastLeftPos s"
  "pollers (snd (createElement s)) = pollers s"
  "console (snd (createElement s)) = console s"
  by (simp_all add: createElement_def)

lemma heap_applyTopState_at:
  "heap (applyTopState c (Some b) s) a =
     (if a = b
      then (heap s b)\<lparr>innerHTML := (if c then ICON_DOWN else ICON_UP),
             attributes := (attributes (heap s b))
               (''data-tooltip'' \<mapsto> (if c then LABEL_TOP_SHOW else LABEL_TOP_HIDE),
                ''aria-label'' \<mapsto> (if c then LABEL_TOP_SHOW else LABEL_TOP_HIDE))\<rparr>
      else heap s a)"
  by (simp add: applyTopState_def Let_def setAttribute_def heap_update_element_at)

lemma heap_applyBottomState_at:
  "heap (applyBottomState c (Some b) s) a =
     (if a = b
      then (heap s b)\<lparr>innerHTML := (if c then ICON_UP else ICON_DOWN),
             attributes := (attributes (heap s b))
               (''data-tooltip'' \<mapsto> (if c then LABEL_BOTTOM_SHOW else LABEL_BOTTOM_HIDE),
                ''aria-label'' \<mapsto> (if c then LABEL_BOTTOM_SHOW else LABEL_BOTTOM_HIDE))\<rparr>
      else heap s a)"
  by (simp add: applyBottomState_def Let_def setAttribute_def heap_update_element_at)

lemma heap_applyLeftState_at:
  "heap (applyLeftState c (Some b) s) a =
     (if a = b
      then (heap s b)\<lparr>innerHTML := (if c then ICON_RIGHT else ICON_LEFT),
             attributes := (attributes (heap s b))
               (''data-tooltip'' \<mapsto> (if c then LABEL_LEFT_SHOW else LABEL_LEFT_HIDE),
                ''aria-label'' \<mapsto> (if c then LABEL_LEFT_SHOW else LABEL_LEFT_HIDE)),
             style := (style (heap s b))
               (''top'' \<mapsto> ''50%'', ''transform'' \<mapsto> ''translateY(-50%)'')\<rparr>
      else heap s a)"
  by (simp add: applyLeftState_def Let_def setAttribute_def set_style_def heap_update_element_at)

lemmas applyTopState_fields =
  body_classes_applyState [where f = Top, simplified]
  applyState_stores [where f = Top, simplified]

lemmas applyBottomState_fields =
  body_classes_applyState [where f = Bottom, simplified]
  applyState_stores [where f = Bottom, simplified]

lemmas applyLeftState_fields =
  body_classes_applyState [where f = Left, simplified]
  applyState_stores [where f = Left, simplified]

lemma createTopButton_fields:
  "fst (createTopButton c s) = next_addr s"
  "body_classes (snd (createTopButton c s)) = classList_toggle (body_classes s) CLASS_TOP c"
  "document (snd (createTopButton c s)) = document s"
  "next_addr (snd (createTopButton c s)) = Suc (next_addr s)"
  "chrome_status (snd (createTopButton c s)) = chrome_status s"
  "chrome_items (snd (createTopButton c s)) = chrome_items s"
  "localStorage (snd (createTopButton c s)) = localStorage s"
  "lastLeftPos (snd (createTopButton c s)) = lastLeftPos s"
  "pollers (snd (createTopButton c s)) = pollers s"
  "console (snd (createTopButton c s)) = console s"
  by (simp_all add: createTopButton_def split_beta Let_def addEventListener_click_def
        applyTopState_fields createElement_eq)

lemma heap_createTopButton:
  "heap (snd (createTopButton c s)) a =
     (if a = next_addr s
      then \<lparr>el_id = BTN_TOP_ID,
             className = ''slack-vc-toggle-btn slack-vc-toggle-btn--top'',
             el_type = ''button'',
             innerHTML = (if c then ICON_DOWN else ICON_UP),
             attributes = [''data-tooltip'' \<mapsto> (if c then LABEL_TOP_SHOW else LABEL_TOP_HIDE),
                           ''aria-label'' \<mapsto> (if c then LABEL_TOP_SHOW else LABEL_TOP_HIDE)],
             style = Map.empty,
             click_listeners = [Top]\<rparr>
      else heap s a)"
  by (simp add: createTopButton_def split_beta Let_def addEventListener_click_def
        heap_update_element_at heap_applyTopState_at createElement_eq new_button_def)

lemma createBottomButton_fields:
  "fst (createBottomButton c s) = next_addr s"
  "body_classes (snd (createBottomButton c s)) = classList_toggle (body_classes s) CLASS_BOTTOM c"
  "document (snd (createBottomButton c s)) = document s"
  "next_addr (snd (createBottomButton c s)) = Suc (next_addr s)"
  "chrome_status (snd (createBottomButton c s)) = chrome_status s"
  "chrome_items (snd (createBottomButton c s)) = chrome_items s"
  "localStorage (snd (createBottomButton c s)) = localStorage s"
  "lastLeftPos (snd (createBottomButton c s)) = lastLeftPos s"
  "pollers (snd (createBottomButton c s)) = pollers s"
  "console (snd (createBottomButton c s)) = console s"
  by (simp_all add: createBottomButton_def split_beta Let_def addEventListener_click_def
        applyBottomState_fields createElement_eq)

lemma heap_createBottomButton:
  "heap (snd (createBottomButton c s)) a =
     (if a = next_addr s
      then \<lparr>el_id = BTN_BOTTOM_ID,
             className = ''slack-vc-toggle-btn slack-vc-toggle-btn--bottom'',
             el_type = ''button'',
             innerHTML = (if c then ICON_UP else ICON_DOWN),
             attributes = [''data-tooltip'' \<mapsto> (if c then LABEL_BOTTOM_SHOW else LABEL_BOTTOM_HIDE),
                           ''aria-label'' \<mapsto> (if c then LABEL_BOTTOM_SHOW else LABEL_BOTTOM_HIDE)],
             style = Map.empty,
             click_listeners = [Bottom]\<rparr>
      else heap s a)"
  by (simp add: createBottomButton_def split_beta Let_def addEventListener_click_def
        heap_update_element_at heap_applyBottomState_at createElement_eq new_button_def)

lemma createLeftButton_fields:
  "fst (createLeftButton c s) = next_addr s"
  "body_classes (snd (createLeftButton c s)) = classList_toggle (body_classes s) CLASS_LEFT c"
  "document (snd (createLeftButton c s)) = document s"
  "next_addr (snd (createLeftButton c s)) = Suc (next_addr s)"
  "chrome_status (snd (createLeftButton c s)) = chrome_status s"
  "chrome_items (snd (createLeftButton c s)) = chrome_items s"
  "localStorage (snd (createLeftButton c s)) = localStorage s"
  "lastLeftPos (snd (createLeftButton c s)) = lastLeftPos s"
  "pollers (snd (createLeftButton c s)) = pollers s"
  "console (snd (createLeftButton c s)) = console s"
  by (simp_all add: createLeftButton_def split_beta Let_def addEventListener_click_def
        applyLeftState_fields createElement_eq)

lemma heap_createLeftButton:
  "heap (snd (createLeftButton c s)) a =
     (if a = next_addr s
      then \<lparr>el_id = BTN_LEFT_ID,
             className = ''slack-vc-toggle-btn slack-vc-toggle-btn--left'',
             el_type = ''button'',
             innerHTML = (if c then ICON_RIGHT else ICON_LEFT),
             attributes = [''data-tooltip'' \<mapsto> (if c then LABEL_LEFT_SHOW else LABEL_LEFT_HIDE),
                           ''aria-label'' \<mapsto> (if c then LABEL_LEFT_SHOW else LABEL_LEFT_HIDE)],
             style = [''top'' \<mapsto> ''50%'', ''transform'' \<mapsto> ''translateY(-50%)''],
             click_listeners = [Left]\<rparr>
      else heap s a)"
  by (simp add: createLeftButton_def split_beta Let_def addEventListener_click_def
        heap_update_element_at heap_applyLeftState_at createElement_eq new_button_def)

lemma appendChild_fields [simp]:
  "body_classes (appendChild b s) = body_classes s"
  "document (appendChild b s) = removeAll b (document s) @ [b]"
  "heap (appendChild b s) = heap s"
  "next_addr (appendChild b s) = next_addr s"
  "chrome_status (appendChild b s) = chrome_status s"
  "chrome_items (appendChild b s) = chrome_items s"
  "localStorage (appendChild b s) = localStorage s"
  "lastLeftPos (appendChild b s) = lastLeftPos s"
  "pollers (appendChild b s) = pollers s"
  "console (appendChild b s) = console s"
  by (simp_all add: appendChild_def)

lemma console_warn_fields [simp]:
  "body_classes (console_warn m s) = body_classes s"
  "document (console_warn m s) = document s"
  "heap (console_warn m s) = heap s"
  "next_addr (console_warn m s) = next_addr s"
  "chrome_status (console_warn m s) = chrome_status s"
  "chrome_items (console_warn m s) = chrome_items s"
  "localStorage (console_warn m s) = localStorage s"
  "lastLeftPos (console_warn m s) = lastLeftPos s"
  "pollers (console_warn m s) = pollers s"
  "console (console_warn m s) = console s @ [m]"
  by (simp_all add: console_warn_def)

lemmas create_fields =
  createTopButton_fields createBottomButton_fields createLeftButton_fields

lemmas apply_fields =
  applyTopState_fields applyBottomState_fields applyLeftState_fields

lemma classList_contains_injectButtons:
  "classList_contains (body_classes (injectButtons v t b l found s)) c =
     (if c = CLASS_TOP then t
      else if c = CLASS_BOTTOM then b
      else if v = ThreeToggle \<and> c = CLASS_LEFT then l
      else classList_contains (body_classes s) c)"
  by (cases v; cases found)
     (simp_all add: injectButtons_def split_beta Let_def create_fields apply_fields
        classList_contains_toggle CLASS_TOP_def CLASS_BOTTOM_def CLASS_LEFT_def)

lemma document_injectButtons:
  "document (injectButtons v t b l found s) =
     (case v of
        ThreeToggle \<Rightarrow>
          filter (\<lambda>a. a \<noteq> next_addr s \<and> a \<noteq> Suc (next_addr s) \<and> a \<noteq> Suc (Suc (next_addr s)))
            (document s) @ [next_addr s, Suc (next_addr s), Suc (Suc (next_addr s))]
      | TwoToggle \<Rightarrow>
          filter (\<lambda>a. a \<noteq> next_addr s \<and> a \<noteq> Suc (next_addr s))
            (document s) @ [next_addr s, Suc (next_addr s)])"
  by (cases v; cases found)
     (auto simp add: injectButtons_def split_beta Let_def create_fields apply_fields
        removeAll_filter_not_eq intro: filter_cong)

lemma labels_twice:
  "(m(''data-tooltip'' \<mapsto> x, ''aria-label'' \<mapsto> x))(''data-tooltip'' \<mapsto> x, ''aria-label'' \<mapsto> x) =
     m(''data-tooltip'' \<mapsto> x, ''aria-label'' \<mapsto> x)"
  by (rule ext) simp

lemma style_twice:
  "(m(''top'' \<mapsto> x, ''transform'' \<mapsto> y))(''top'' \<mapsto> x, ''transform'' \<mapsto> y) =
     m(''top'' \<mapsto> x, ''transform'' \<mapsto> y)"
  by (rule ext) simp

lemmas heap_create =
  heap_createTopButton heap_createBottomButton heap_createLeftButton

lemmas heap_apply_at =
  heap_applyTopState_at heap_applyBottomState_at heap_applyLeftState_at

lemma heap_injectButtons:
  "heap (injectButtons v t b l found s) a =
     (if a = next_addr s then heap (snd (createTopButton t s)) a
      else if a = Suc (next_addr s)
        then heap (snd (createBottomButton b (snd (createTopButton t s)))) a
      else if v = ThreeToggle \<and> a = Suc (Suc (next_addr s))
        then heap (snd (createLeftButton l
               (snd (createBottomButton b (snd (createTopButton t s)))))) a
      else heap s a)"
  by (cases v; cases found)
     (simp_all add: injectButtons_def split_beta Let_def create_fields heap_create
        heap_apply_at labels_twice style_twice)

lemma getStoredState_Works:
  "chrome_status s = Works \<Longrightarrow>
     getStoredState k s = (Returns (chrome_items s k = Some (JBool True)), s)"
  by (auto simp: getStoredState_def strict_equals_true_def split: option.splits jsvalue.splits)

lemma clearInterval_fields [simp]:
  "body_classes (clearInterval i s) = body_classes s"
  "document (clearInterval i s) = document s"
  "heap (clearInterval i s) = heap s"
  "next_addr (clearInterval i s) = next_addr s"
  "chrome_status (clearInterval i s) = chrome_status s"
  "chrome_items (clearInterval i s) = chrome_items s"
  "localStorage (clearInterval i s) = localStorage s"
  "lastLeftPos (clearInterval i s) = lastLeftPos s"
  "console (clearInterval i s) = console s"
  "pollers (clearInterval i s) = take i (pollers s) @ drop (Suc i) (pollers s)"
  by (simp_all add: clearInterval_def)

lemma init_guard:
  "getElementById s BTN_TOP_ID \<noteq> None \<Longrightarrow> init v s = (Returns (), s)"
  by (simp add: init_def)

lemma init_Works:
  "getElementById s BTN_TOP_ID = None \<Longrightarrow> chrome_status s = Works \<Longrightarrow>
     init v s =
       (Returns (),
        s\<lparr>pollers := pollers s @
           [\<lparr>p_top = (chrome_items s STORAGE_KEY_TOP = Some (JBool True)),
             p_bottom = (chrome_items s STORAGE_KEY_BOTTOM = Some (JBool True)),
             p_left = (v = ThreeToggle \<and> chrome_items s STORAGE_KEY_LEFT = Some (JBool True)),
             p_elapsed = 0\<rparr>]\<rparr>)"
  by (cases v) (simp_all add: init_def getStoredState_Works)

lemma waitForSlack_tick_injects:
  "i < length (pollers s) \<Longrightarrow> container \<or> maxWait \<le> p_elapsed (pollers s ! i) + interval \<Longrightarrow>
     waitForSlack_tick v container i s =
       injectButtons v (p_top (pollers s ! i)) (p_bottom (pollers s ! i)) (p_left (pollers s ! i))
         (p_elapsed (pollers s ! i) + interval, container) (clearInterval i s)"
  by (simp add: waitForSlack_tick_def Let_def)

lemma waitForSlack_tick_waits:
  "i < length (pollers s) \<Longrightarrow> \<not> container \<Longrightarrow> p_elapsed (pollers s ! i) + interval < maxWait \<Longrightarrow>
     waitForSlack_tick v container i s =
       s\<lparr>pollers := (pollers s)[i := (pollers s ! i)\<lparr>p_elapsed := p_elapsed (pollers s ! i) + interval\<rparr>]\<rparr>"
  by (simp add: waitForSlack_tick_def Let_def)

text \<open>The polling ends: the ticks of a registered interval lead to its injection.\<close>

lemma run_waitForSlack_injects:
  "i < length (pollers s) \<Longrightarrow>
     \<exists>elapsed container. run_waitForSlack v container_at i s =
       injectButtons v (p_top (pollers s ! i)) (p_bottom (pollers s ! i)) (p_left (pollers s ! i))
         (elapsed, container) (clearInterval i s)"
proof (induction v container_at i s rule: run_waitForSlack.induct)
  case (1 v container_at i s)
  let ?e = "p_elapsed (pollers s ! i) + interval"
  show ?case
  proof (cases "container_at ?e \<or> maxWait \<le> ?e")
    case True
    then have "run_waitForSlack v container_at i s = waitForSlack_tick v (container_at ?e) i s"
      using "1.prems" by (subst run_waitForSlack.simps) (simp add: Let_def)
    also have "\<dots> =
        injectButtons v (p_top (pollers s ! i)) (p_bottom (pollers s ! i))
          (p_left (pollers s ! i)) (?e, container_at ?e) (clearInterval i s)"
      using True by (intro waitForSlack_tick_injects "1.prems")
    finally show ?thesis by blast
  next
    case False
    let ?s' = "waitForSlack_tick v (container_at ?e) i s"
    have waits: "?s' =
        s\<lparr>pollers := (pollers s)[i := (pollers s ! i)\<lparr>p_elapsed := ?e\<rparr>]\<rparr>"
      using False "1.prems" by (simp add: waitForSlack_tick_waits)
    have run: "run_waitForSlack v container_at i s = run_waitForSlack v container_at i ?s'"
      using False "1.prems" by (subst run_waitForSlack.simps) (simp add: Let_def)
    have len: "i < length (pollers ?s')"
      using "1.prems" by (simp add: waits)
    have cleared: "clearInterval i ?s' = clearInterval i s"
      using "1.prems" by (simp add: waits clearInterval_def)
    have captured: "p_top (pollers ?s' ! i) = p_top (pollers s ! i)"
      "p_bottom (pollers ?s' ! i) = p_bottom (pollers s ! i)"
      "p_left (pollers ?s' ! i) = p_left (pollers s ! i)"
      using "1.prems" by (simp_all add: waits)
    from "1.IH" [OF "1.prems" refl refl False len]
    show ?thesis unfolding run cleared captured .
  qed
qed

lemma run_waitForSlack_none:
  "\<not> i < length (pollers s) \<Longrightarrow> run_waitForSlack v container_at i s = s"
  by (subst run_waitForSlack.simps) simp

lemma initialize_guard:
  "getElementById s BTN_TOP_ID \<noteq> None \<Longrightarrow> initialize v container_at s = (Returns (), s)"
  by (simp add: initialize_def init_guard run_waitForSlack_none)

lemma initialize_Works:
  assumes "getElementById s BTN_TOP_ID = None" and "chrome_status s = Works"
  shows "\<exists>elapsed container. initialize v container_at s =
      (Returns (),
       injectButtons v
         (chrome_items s STORAGE_KEY_TOP = Some (JBool True))
         (chrome_items s STORAGE_KEY_BOTTOM = Some (JBool True))
         (v = ThreeToggle \<and> chrome_items s STORAGE_KEY_LEFT = Some (JBool True))
         (elapsed, container) s)"
proof -
  let ?p = "\<lparr>p_top = (chrome_items s STORAGE_KEY_TOP = Some (JBool True)),
      p_bottom = (chrome_items s STORAGE_KEY_BOTTOM = Some (JBool True)),
      p_left = (v = ThreeToggle \<and> chrome_items s STORAGE_KEY_LEFT = Some (JBool True)),
      p_elapsed = 0\<rparr>"
  let ?s1 = "s\<lparr>pollers := pollers s @ [?p]\<rparr>"
  have len: "length (pollers s) < length (pollers ?s1)" by simp
  have cleared: "clearInterval (length (pollers s)) ?s1 = s"
    by (simp add: clearInterval_def)
  have last: "pollers ?s1 ! length (pollers s) = ?p" by simp
  from run_waitForSlack_injects [OF len, of v container_at]
  obtain elapsed container where
    "run_waitForSlack v container_at (length (pollers s)) ?s1 =
       injectButtons v (p_top ?p) (p_bottom ?p) (p_left ?p) (elapsed, container) s"
    unfolding cleared last by blast
  then have "initialize v container_at s =
      (Returns (),
       injectButtons v
         (chrome_items s STORAGE_KEY_TOP = Some (JBool True))
         (chrome_items s STORAGE_KEY_BOTTOM = Some (JBool True))
         (v = ThreeToggle \<and> chrome_items s STORAGE_KEY_LEFT = Some (JBool True))
         (elapsed, container) s)"
    by (simp add: initialize_def init_Works [OF assms])
  then show ?thesis by blast
qed

lemma getElementById_injectButtons:
  "getElementById (injectButtons v t b l found s) BTN_TOP_ID \<noteq> None"
proof -
  let ?s' = "injectButtons v t b l found s"
  have "next_addr s \<in> set (document ?s')"
    by (cases v) (simp_all add: document_injectButtons)
  moreover have "el_id (heap ?s' (next_addr s)) = BTN_TOP_ID"
    by (simp add: heap_injectButtons heap_createTopButton)
  ultimately show ?thesis
    by (auto simp: getElementById_def find_None_iff)
qed

lemma empty_page_fields:
  "next_addr empty_page = 0" "document empty_page = []" "body_classes empty_page = []"
  "chrome_status empty_page = Works" "chrome_items empty_page = Map.empty"
  "pollers empty_page = []"
  by (simp_all add: empty_page_def)

lemma initialize_empty_page:
  "initialize v (\<lambda>_. True) empty_page =
     (Returns (), injectButtons v False False False (interval, True) empty_page)"
proof -
  let ?p = "\<lparr>p_top = False, p_bottom = False, p_left = False, p_elapsed = 0\<rparr>"
  let ?s1 = "empty_page\<lparr>pollers := [?p]\<rparr>"
  have fresh: "getElementById empty_page BTN_TOP_ID = None" "chrome_status empty_page = Works"
    by (simp_all add: empty_page_def getElementById_def)
  have first: "init v empty_page = (Returns (), ?s1)"
    using init_Works [OF fresh, of v] by (simp add: empty_page_def)
  have cleared: "clearInterval 0 ?s1 = empty_page"
    by (simp add: clearInterval_def empty_page_def)
  have "run_waitForSlack v (\<lambda>_. True) 0 ?s1 = waitForSlack_tick v True 0 ?s1"
    by (subst run_waitForSlack.simps) (simp add: Let_def)
  also have "\<dots> = injectButtons v False False False (interval, True) (clearInterval 0 ?s1)"
    by (simp add: waitForSlack_tick_def Let_def)
  finally have "run_waitForSlack v (\<lambda>_. True) 0 ?s1 =
      injectButtons v False False False (interval, True) empty_page"
    unfolding cleared .
  then show ?thesis
    by (simp add: initialize_def first empty_page_fields)
qed

lemma BTN_ID_distinct:
  "BTN_TOP_ID \<noteq> BTN_BOTTOM_ID" "BTN_TOP_ID \<noteq> BTN_LEFT_ID" "BTN_BOTTOM_ID \<noteq> BTN_LEFT_ID"
  "BTN_BOTTOM_ID \<noteq> BTN_TOP_ID" "BTN_LEFT_ID \<noteq> BTN_TOP_ID" "BTN_LEFT_ID \<noteq> BTN_BOTTOM_ID"
  by (simp_all add: BTN_TOP_ID_def BTN_BOTTOM_ID_def BTN_LEFT_ID_def)

lemma injected_page:
  "document (injectButtons ThreeToggle t b l found empty_page) = [0, Suc 0, Suc (Suc 0)]"
  "el_id (heap (injectButtons ThreeToggle t b l found empty_page) 0) = BTN_TOP_ID"
  "el_id (heap (injectButtons ThreeToggle t b l found empty_page) (Suc 0)) = BTN_BOTTOM_ID"
  "el_id (heap (injectButtons ThreeToggle t b l found empty_page) (Suc (Suc 0))) = BTN_LEFT_ID"
  "click_listeners (heap (injectButtons ThreeToggle t b l found empty_page) 0) = [Top]"
  "click_listeners (heap (injectButtons ThreeToggle t b l found empty_page) (Suc 0)) = [Bottom]"
  "click_listeners (heap (injectButtons ThreeToggle t b l found empty_page) (Suc (Suc 0))) = [Left]"
  by (simp_all add: document_injectButtons heap_injectButtons heap_create create_fields
        empty_page_fields)

lemma injected_page_ids:
  "getElementById (injectButtons ThreeToggle t b l found empty_page) BTN_TOP_ID = Some 0"
  "getElementById (injectButtons ThreeToggle t b l found empty_page) BTN_BOTTOM_ID = Some (Suc 0)"
  "getElementById (injectButtons ThreeToggle t b l found empty_page) BTN_LEFT_ID
     = Some (Suc (Suc 0))"
  by (simp_all add: getElementById_def injected_page BTN_ID_distinct)


lemma stores_injectButtons:
  "lastLeftPos (injectButtons v t b l found s) = lastLeftPos s"
  "pollers (injectButtons v t b l found s) = pollers s"
  "chrome_status (injectButtons v t b l found s) = chrome_status s"
  "chrome_items (injectButtons v t b l found s) = chrome_items s"
  "localStorage (injectButtons v t b l found s) = localStorage s"
  by (cases v; cases found;
      simp add: injectButtons_def split_beta Let_def create_fields apply_fields)+

lemma lastLeftPos_empty_page: "lastLeftPos empty_page = []"
  by (simp add: empty_page_def)

subsection \<open>The keys that lower to a shortcut letter\<close>

lemma lower_char_eq:
  "lower_char c = CHR ''h'' \<longleftrightarrow> c = CHR ''h'' \<or> c = CHR ''H''"
  "lower_char c = CHR ''j'' \<longleftrightarrow> c = CHR ''j'' \<or> c = CHR ''J''"
  "lower_char c = CHR ''l'' \<longleftrightarrow> c = CHR ''l'' \<or> c = CHR ''L''"
  by (cases c; auto simp: lower_char_def)+

lemma toLowerCase_letters:
  "toLowerCase k = ''h'' \<longleftrightarrow> k = ''h'' \<or> k = ''H''"
  "toLowerCase k = ''j'' \<longleftrightarrow> k = ''j'' \<or> k = ''J''"
  "toLowerCase k = ''l'' \<longleftrightarrow> k = ''l'' \<or> k = ''L''"
  by (cases k; auto simp: toLowerCase_def lower_char_eq)+

subsection \<open>Two clicks in a row\<close>

lemma CLASS_distinct:
  "CLASS_TOP \<noteq> CLASS_BOTTOM" "CLASS_TOP \<noteq> CLASS_LEFT" "CLASS_BOTTOM \<noteq> CLASS_LEFT"
  "CLASS_BOTTOM \<noteq> CLASS_TOP" "CLASS_LEFT \<noteq> CLASS_TOP" "CLASS_LEFT \<noteq> CLASS_BOTTOM"
  by (simp_all add: CLASS_TOP_def CLASS_BOTTOM_def CLASS_LEFT_def)

lemma ICON_distinct:
  "ICON_UP \<noteq> ICON_DOWN" "ICON_DOWN \<noteq> ICON_UP" "ICON_LEFT \<noteq> ICON_RIGHT" "ICON_RIGHT \<noteq> ICON_LEFT"
  by (simp_all add: ICON_UP_def ICON_DOWN_def ICON_LEFT_def ICON_RIGHT_def)

lemma applyState_button_view:
  "innerHTML (heap (applyState f c (Some b) s) b) =
     innerHTML (heap (applyState f c (Some b) s') b)"
  "attributes (heap (applyState f c (Some b) s) b) ''data-tooltip'' =
     attributes (heap (applyState f c (Some b) s') b) ''data-tooltip''"
  "attributes (heap (applyState f c (Some b) s) b) ''aria-label'' =
     attributes (heap (applyState f c (Some b) s') b) ''aria-label''"
  by (cases f; simp add: heap_apply_at)+

lemma double_toggle_class:
  "classList_contains (body_classes (snd (onClick f b (snd (onClick f b s))))) (CLASS f) =
     classList_contains (body_classes s) (CLASS f)"
  by (simp add: body_classes_onClick classList_contains_toggle)

lemma double_toggle_button:
  "heap (snd (onClick f b (snd (onClick f b s)))) =
     heap (applyState f (classList_contains (body_classes s) (CLASS f)) (Some b)
       (snd (onClick f b s)))"
  by (simp add: heap_onClick body_classes_onClick classList_contains_toggle)

section \<open>Reading the persisted flag\<close>

text \<open>
  Claim C10. The two storage paths of \<^verbatim>\<open>getStoredState\<close> decode differently: through
  the extension store the result is true exactly when the stored value is the boolean
  \<^verbatim>\<open>true\<close> (a missing entry, the string \<^verbatim>\<open>"true"\<close>, a number and every
  other value read as not collapsed); through the page-local fallback, taken when the
  extension call throws, the result is true exactly when the stored string is
  \<^verbatim>\<open>'true'\<close>.
\<close>

theorem getStoredState_decoding:
  "(chrome_status s = Works \<longrightarrow>
      fst (getStoredState k s) = Returns (chrome_items s k = Some (JBool True))) \<and>
   (chrome_status s = ThrowsSync \<and> localStorage s = Some items \<longrightarrow>
      fst (getStoredState k s) = Returns (items k = Some ''true''))"
  by (auto simp: getStoredState_def strict_equals_true_def split: option.splits jsvalue.splits)

theorem getStoredState_decoding_witness:
  "fst (getStoredState STORAGE_KEY_TOP
          (empty_page\<lparr>chrome_items := [STORAGE_KEY_TOP \<mapsto> JBool True]\<rparr>)) = Returns True \<and>
   fst (getStoredState STORAGE_KEY_TOP
          (empty_page\<lparr>chrome_items := [STORAGE_KEY_TOP \<mapsto> JStr ''true'']\<rparr>)) = Returns False \<and>
   fst (getStoredState STORAGE_KEY_TOP
          (empty_page\<lparr>chrome_items := [STORAGE_KEY_TOP \<mapsto> JNum 1]\<rparr>)) = Returns False \<and>
   fst (getStoredState STORAGE_KEY_TOP
          (empty_page\<lparr>chrome_status := ThrowsSync,
             localStorage := Some [STORAGE_KEY_TOP \<mapsto> ''true'']\<rparr>)) = Returns True \<and>
   fst (getStoredState STORAGE_KEY_TOP
          (empty_page\<lparr>chrome_status := ThrowsSync,
             localStorage := Some [STORAGE_KEY_TOP \<mapsto> ''false'']\<rparr>)) = Returns False"
  using
    getStoredState_decoding [where k = STORAGE_KEY_TOP
      and s = "empty_page\<lparr>chrome_items := [STORAGE_KEY_TOP \<mapsto> JBool True]\<rparr>"]
    getStoredState_decoding [where k = STORAGE_KEY_TOP
      and s = "empty_page\<lparr>chrome_items := [STORAGE_KEY_TOP \<mapsto> JStr ''true'']\<rparr>"]
    getStoredState_decoding [where k = STORAGE_KEY_TOP
      and s = "empty_page\<lparr>chrome_items := [STORAGE_KEY_TOP \<mapsto> JNum 1]\<rparr>"]
    getStoredState_decoding [where k = STORAGE_KEY_TOP
      and items = "[STORAGE_KEY_TOP \<mapsto> ''true'']"
      and s = "empty_page\<lparr>chrome_status := ThrowsSync,
                 localStorage := Some [STORAGE_KEY_TOP \<mapsto> ''true'']\<rparr>"]
    getStoredState_decoding [where k = STORAGE_KEY_TOP
      and items = "[STORAGE_KEY_TOP \<mapsto> ''false'']"
      and s = "empty_page\<lparr>chrome_status := ThrowsSync,
                 localStorage := Some [STORAGE_KEY_TOP \<mapsto> ''false'']\<rparr>"]
  by (simp add: empty_page_def)

text \<open>
  Claim C6, as the code has it. A read that reports an error through the completion callback
  gives false. A read whose storage call throws synchronously is answered from page-local
  storage: true exactly when the string stored there under the key is \<^verbatim>\<open>'true'\<close>, so
  false when the fallback has no entry or another string. In both cases the promise resolves,
  so no error reaches the caller, as long as the page-local read itself does not throw
  (\<open>getStoredState_rejects\<close> is the case where it does).
\<close>

theorem getStoredState_failing_read:
  "(chrome_status s = ReportsLastError \<longrightarrow> fst (getStoredState k s) = Returns False) \<and>
   (chrome_status s = ThrowsSync \<and> localStorage s = Some items \<longrightarrow>
      fst (getStoredState k s) = Returns (items k = Some ''true''))"
  by (simp add: getStoredState_def)

theorem getStoredState_failing_read_witness:
  "fst (getStoredState STORAGE_KEY_LEFT (empty_page\<lparr>chrome_status := ReportsLastError\<rparr>))
     = Returns False \<and>
   fst (getStoredState STORAGE_KEY_LEFT
          (empty_page\<lparr>chrome_status := ThrowsSync, localStorage := Some Map.empty\<rparr>))
     = Returns False \<and>
   fst (getStoredState STORAGE_KEY_LEFT
          (empty_page\<lparr>chrome_status := ThrowsSync,
             localStorage := Some [STORAGE_KEY_LEFT \<mapsto> ''true'']\<rparr>))
     = Returns True"
  using
    getStoredState_failing_read [where k = STORAGE_KEY_LEFT
      and s = "empty_page\<lparr>chrome_status := ReportsLastError\<rparr>"]
    getStoredState_failing_read [where k = STORAGE_KEY_LEFT and items = Map.empty
      and s = "empty_page\<lparr>chrome_status := ThrowsSync, localStorage := Some Map.empty\<rparr>"]
    getStoredState_failing_read [where k = STORAGE_KEY_LEFT
      and items = "[STORAGE_KEY_LEFT \<mapsto> ''true'']"
      and s = "empty_page\<lparr>chrome_status := ThrowsSync,
                 localStorage := Some [STORAGE_KEY_LEFT \<mapsto> ''true'']\<rparr>"]
  by (simp add: empty_page_def)

text \<open>
  The claim as it was stated (every failing read gives false) fails where the extension call
  throws and page-local storage holds \<^verbatim>\<open>'true'\<close> for the key, which is what
  \<^verbatim>\<open>setStoredState\<close> writes there on its own fallback path.
\<close>

theorem getStoredState_sync_throw_counterexample:
  "chrome_status (empty_page\<lparr>chrome_status := ThrowsSync,
      localStorage := Some [STORAGE_KEY_TOP \<mapsto> ''true'']\<rparr>) = ThrowsSync \<and>
   fst (getStoredState STORAGE_KEY_TOP
          (empty_page\<lparr>chrome_status := ThrowsSync,
             localStorage := Some [STORAGE_KEY_TOP \<mapsto> ''true'']\<rparr>)) = Returns True"
  by (simp add: getStoredState_def empty_page_def)

section \<open>Applying and toggling a flag\<close>

text \<open>
  Claim C9. For every flag and every boolean \<open>collapsed\<close>, an apply function called with no
  button (\<^verbatim>\<open>null\<close>) still sets or removes the flag's marker class on the body according
  to \<open>collapsed\<close>, updates no element, and has no failing step: the accesses to the button are
  all under the guard, the class toggle is not. The result is the state with the toggled class
  list and nothing else changed.
\<close>

theorem applyState_null_button:
  "applyState f collapsed None s =
     s\<lparr>body_classes := classList_toggle (body_classes s) (CLASS f) collapsed\<rparr> \<and>
   classList_contains (body_classes (applyState f collapsed None s)) (CLASS f) = collapsed \<and>
   heap (applyState f collapsed None s) = heap s"
  by (simp add: applyState_None classList_contains_toggle)

text \<open>
  Claim C8. The flags are independent. For distinct flags \<open>f\<close> and \<open>g\<close>, applying or toggling
  \<open>f\<close> leaves the marker class of \<open>g\<close> as it was and leaves every element other than the
  button of \<open>f\<close> (so the buttons of the other flags, with their icons and labels) unchanged; an
  apply call changes the membership of exactly one class token of the body, its own, which it
  sets to \<open>collapsed\<close>.
\<close>

theorem flags_independent:
  assumes "f \<noteq> g" and "a \<noteq> b"
  shows "classList_contains (body_classes (applyState f c btn s)) (CLASS g) =
           classList_contains (body_classes s) (CLASS g) \<and>
         heap (applyState f c (Some b) s) a = heap s a \<and>
         classList_contains (body_classes (snd (onClick f b s))) (CLASS g) =
           classList_contains (body_classes s) (CLASS g) \<and>
         heap (snd (onClick f b s)) a = heap s a \<and>
         (\<forall>t. t \<noteq> CLASS f \<longrightarrow>
            classList_contains (body_classes (applyState f c btn s)) t =
              classList_contains (body_classes s) t) \<and>
         classList_contains (body_classes (applyState f c btn s)) (CLASS f) = c"
  using assms
  by (simp add: classList_contains_applyState CLASS_inject heap_applyState_other heap_onClick
        body_classes_onClick classList_contains_toggle)

theorem flags_independent_witness:
  "Top \<noteq> Bottom \<and> Suc 0 \<noteq> 0 \<and>
   classList_contains (body_classes (applyState Top True (Some 0)
     (injectButtons ThreeToggle False True False (300, True) empty_page))) CLASS_BOTTOM \<and>
   innerHTML (heap (applyState Top True (Some 0)
     (injectButtons ThreeToggle False True False (300, True) empty_page)) (Suc 0)) = ICON_UP \<and>
   classList_contains (body_classes (snd (onClick Top 0
     (injectButtons ThreeToggle False True False (300, True) empty_page)))) CLASS_BOTTOM \<and>
   innerHTML (heap (snd (onClick Top 0
     (injectButtons ThreeToggle False True False (300, True) empty_page))) (Suc 0)) = ICON_UP \<and>
   classList_contains (body_classes (applyState Top True (Some 0)
     (injectButtons ThreeToggle False True False (300, True) empty_page))) CLASS_TOP"
  using flags_independent [where f = Top and g = Bottom and a = "Suc 0" and b = 0 and c = True
      and btn = "Some 0"
      and s = "injectButtons ThreeToggle False True False (300, True) empty_page"]
  by (simp add: classList_contains_injectButtons CLASS_distinct heap_injectButtons heap_create
        create_fields empty_page_fields)

text \<open>
  Claim C1. One click on a flag's control flips the flag's body class, and the value the click
  passes to \<^verbatim>\<open>setStoredState\<close> is the new state of the class: the class is on the body
  after the click exactly when the persisted value is true. On the extension store the entry
  of the flag's key becomes that boolean; on the page-local fallback it becomes its string.
\<close>

theorem click_persists_new_state:
  "classList_contains (body_classes (snd (onClick f b s))) (CLASS f) =
     (\<not> classList_contains (body_classes s) (CLASS f)) \<and>
   onClick f b s =
     setStoredState (STORAGE_KEY f)
       (classList_contains (body_classes (snd (onClick f b s))) (CLASS f))
       (applyState f (\<not> classList_contains (body_classes s) (CLASS f)) (Some b) s) \<and>
   (chrome_status s = Works \<longrightarrow>
      chrome_items (snd (onClick f b s)) (STORAGE_KEY f) =
        Some (JBool (classList_contains (body_classes (snd (onClick f b s))) (CLASS f)))) \<and>
   (chrome_status s = ThrowsSync \<and> localStorage s = Some items \<longrightarrow>
      localStorage (snd (onClick f b s)) =
        Some (items(STORAGE_KEY f \<mapsto>
          String_of_bool (classList_contains (body_classes (snd (onClick f b s))) (CLASS f)))))"
proof -
  have present: "classList_contains (body_classes (snd (onClick f b s))) (CLASS f) =
      (\<not> classList_contains (body_classes s) (CLASS f))"
    by (simp add: body_classes_onClick classList_contains_toggle)
  have call: "onClick f b s =
      setStoredState (STORAGE_KEY f)
        (classList_contains (body_classes (snd (onClick f b s))) (CLASS f))
        (applyState f (\<not> classList_contains (body_classes s) (CLASS f)) (Some b) s)"
    unfolding present by (rule onClick_eq)
  have ext: "chrome_items (snd (onClick f b s)) (STORAGE_KEY f) =
      Some (JBool (classList_contains (body_classes (snd (onClick f b s))) (CLASS f)))"
    if "chrome_status s = Works"
    unfolding present using that by (simp add: onClick_eq setStoredState_def)
  have loc: "localStorage (snd (onClick f b s)) =
      Some (items(STORAGE_KEY f \<mapsto>
        String_of_bool (classList_contains (body_classes (snd (onClick f b s))) (CLASS f))))"
    if "chrome_status s = ThrowsSync" and "localStorage s = Some items"
    unfolding present using that by (simp add: onClick_eq setStoredState_def)
  from present call ext loc show ?thesis by blast
qed

theorem click_persists_new_state_witness:
  "classList_contains (body_classes (snd (onClick Top 0 empty_page))) CLASS_TOP \<and>
   chrome_items (snd (onClick Top 0 empty_page)) STORAGE_KEY_TOP = Some (JBool True) \<and>
   \<not> classList_contains
       (body_classes (snd (onClick Left 0 (empty_page\<lparr>body_classes := [CLASS_LEFT],
          chrome_status := ThrowsSync\<rparr>)))) CLASS_LEFT \<and>
   localStorage (snd (onClick Left 0 (empty_page\<lparr>body_classes := [CLASS_LEFT],
          chrome_status := ThrowsSync\<rparr>))) = Some [STORAGE_KEY_LEFT \<mapsto> ''false'']"
  using click_persists_new_state [where f = Top and b = 0 and s = empty_page]
    click_persists_new_state [where f = Left and b = 0 and items = Map.empty
      and s = "empty_page\<lparr>body_classes := [CLASS_LEFT], chrome_status := ThrowsSync\<rparr>"]
  by (simp add: empty_page_def classList_contains_def String_of_bool_def)

section \<open>Fresh load and double initialization\<close>

text \<open>
  Claim C3. On a fresh load (no top control in the document yet) where the extension store
  answers: for every flag whose key has no entry in the store, \<^verbatim>\<open>getStoredState\<close>
  gives false; \<^verbatim>\<open>init\<close> completes; and after the initialization the marker class of
  every flag of the script whose key has no entry is not on the body. With no persisted state
  at all, every region is expanded. This holds for an undisturbed initialization, whatever
  the polling finds and also when it times out, and it holds for the injecting tick of the
  registered interval in whatever state the page is by then.
\<close>

theorem init_fresh_load_expanded:
  assumes "chrome_status s = Works" and "getElementById s BTN_TOP_ID = None"
  shows "(\<forall>f. chrome_items s (STORAGE_KEY f) = None \<longrightarrow>
            getStoredState (STORAGE_KEY f) s = (Returns False, s)) \<and>
         fst (init v s) = Returns () \<and>
         fst (initialize v container_at s) = Returns () \<and>
         (\<forall>f\<in>set (flags v). chrome_items s (STORAGE_KEY f) = None \<longrightarrow>
            \<not> classList_contains (body_classes (snd (initialize v container_at s))) (CLASS f)) \<and>
         (\<forall>s' i container.
            i < length (pollers s') \<and>
            (pollers s' ! i)\<lparr>p_elapsed := 0\<rparr> = last (pollers (snd (init v s))) \<and>
            (container \<or> maxWait \<le> p_elapsed (pollers s' ! i) + interval) \<longrightarrow>
            (\<forall>f\<in>set (flags v). chrome_items s (STORAGE_KEY f) = None \<longrightarrow>
               \<not> classList_contains
                   (body_classes (waitForSlack_tick v container i s')) (CLASS f)))"
proof -
  let ?p = "\<lparr>p_top = (chrome_items s STORAGE_KEY_TOP = Some (JBool True)),
      p_bottom = (chrome_items s STORAGE_KEY_BOTTOM = Some (JBool True)),
      p_left = (v = ThreeToggle \<and> chrome_items s STORAGE_KEY_LEFT = Some (JBool True)),
      p_elapsed = 0\<rparr>"
  have reads: "\<forall>f. chrome_items s (STORAGE_KEY f) = None \<longrightarrow>
      getStoredState (STORAGE_KEY f) s = (Returns False, s)"
    using assms(1) by (simp add: getStoredState_Works)
  note registered = init_Works [OF assms(2) assms(1), of v]
  obtain elapsed container where run: "initialize v container_at s =
      (Returns (),
       injectButtons v
         (chrome_items s STORAGE_KEY_TOP = Some (JBool True))
         (chrome_items s STORAGE_KEY_BOTTOM = Some (JBool True))
         (v = ThreeToggle \<and> chrome_items s STORAGE_KEY_LEFT = Some (JBool True))
         (elapsed, container) s)"
    using initialize_Works [OF assms(2) assms(1), of v container_at] by blast
  have undisturbed: "\<forall>f\<in>set (flags v). chrome_items s (STORAGE_KEY f) = None \<longrightarrow>
      \<not> classList_contains (body_classes (snd (initialize v container_at s))) (CLASS f)"
    unfolding run
    by (cases v) (simp_all add: classList_contains_injectButtons CLASS_distinct)
  have later: "\<forall>f\<in>set (flags v). chrome_items s (STORAGE_KEY f) = None \<longrightarrow>
      \<not> classList_contains (body_classes (waitForSlack_tick v container i s')) (CLASS f)"
    if len: "i < length (pollers s')"
      and same: "(pollers s' ! i)\<lparr>p_elapsed := 0\<rparr> = last (pollers (snd (init v s)))"
      and due: "container \<or> maxWait \<le> p_elapsed (pollers s' ! i) + interval"
    for s' i container
  proof -
    from same have eq: "(pollers s' ! i)\<lparr>p_elapsed := 0\<rparr> = ?p"
      by (simp add: registered)
    have "p_top ((pollers s' ! i)\<lparr>p_elapsed := 0\<rparr>) = p_top ?p"
      "p_bottom ((pollers s' ! i)\<lparr>p_elapsed := 0\<rparr>) = p_bottom ?p"
      "p_left ((pollers s' ! i)\<lparr>p_elapsed := 0\<rparr>) = p_left ?p"
      by (simp_all only: eq)
    then have captured:
      "p_top (pollers s' ! i) = (chrome_items s STORAGE_KEY_TOP = Some (JBool True))"
      "p_bottom (pollers s' ! i) = (chrome_items s STORAGE_KEY_BOTTOM = Some (JBool True))"
      "p_left (pollers s' ! i) =
         (v = ThreeToggle \<and> chrome_items s STORAGE_KEY_LEFT = Some (JBool True))"
      by simp_all
    show ?thesis
      unfolding waitForSlack_tick_injects [OF len due]
      by (cases v)
         (simp_all add: classList_contains_injectButtons CLASS_distinct captured)
  qed
  from reads registered run undisturbed later show ?thesis
    by simp
qed

theorem init_fresh_load_expanded_witness:
  "getStoredState STORAGE_KEY_LEFT empty_page = (Returns False, empty_page) \<and>
   fst (initialize ThreeToggle (\<lambda>_. False) empty_page) = Returns () \<and>
   \<not> classList_contains
       (body_classes (snd (initialize ThreeToggle (\<lambda>_. False) empty_page))) CLASS_TOP \<and>
   \<not> classList_contains
       (body_classes (snd (initialize ThreeToggle (\<lambda>_. False) empty_page))) CLASS_BOTTOM \<and>
   \<not> classList_contains
       (body_classes (snd (initialize ThreeToggle (\<lambda>_. False) empty_page))) CLASS_LEFT"
proof -
  have fresh: "chrome_status empty_page = Works" "getElementById empty_page BTN_TOP_ID = None"
    by (simp_all add: empty_page_def getElementById_def)
  note run = init_fresh_load_expanded [OF fresh, of ThreeToggle "\<lambda>_. False"]
  from run [THEN conjunct1, rule_format, of Left]
  have "getStoredState STORAGE_KEY_LEFT empty_page = (Returns False, empty_page)"
    by (simp add: empty_page_fields)
  moreover from run [THEN conjunct2, THEN conjunct2, THEN conjunct1]
  have "fst (initialize ThreeToggle (\<lambda>_. False) empty_page) = Returns ()" .
  moreover from run [THEN conjunct2, THEN conjunct2, THEN conjunct2, THEN conjunct1]
  have "\<not> classList_contains
         (body_classes (snd (initialize ThreeToggle (\<lambda>_. False) empty_page))) CLASS_TOP \<and>
     \<not> classList_contains
         (body_classes (snd (initialize ThreeToggle (\<lambda>_. False) empty_page))) CLASS_BOTTOM \<and>
     \<not> classList_contains
         (body_classes (snd (initialize ThreeToggle (\<lambda>_. False) empty_page))) CLASS_LEFT"
    by (simp add: empty_page_fields)
  ultimately show ?thesis by simp
qed


text \<open>
  The guard looks for the id of the top control only. In a document that holds the bottom
  control of an earlier initialization and not the top one, \<^verbatim>\<open>init\<close> passes the guard
  although a control is present, and the initialization leaves two elements with the id of the
  bottom control.
\<close>

lemma init_guard_bottom_only:
  "getElementById (appendChild 0 (snd (createBottomButton False empty_page))) BTN_BOTTOM_ID
     = Some 0 \<and>
   document (snd (initialize ThreeToggle (\<lambda>_. True)
     (appendChild 0 (snd (createBottomButton False empty_page))))) = [0, 1, 2, 3] \<and>
   el_id (heap (snd (initialize ThreeToggle (\<lambda>_. True)
     (appendChild 0 (snd (createBottomButton False empty_page))))) 0) = BTN_BOTTOM_ID \<and>
   el_id (heap (snd (initialize ThreeToggle (\<lambda>_. True)
     (appendChild 0 (snd (createBottomButton False empty_page))))) 2) = BTN_BOTTOM_ID"
proof -
  let ?s0 = "appendChild 0 (snd (createBottomButton False empty_page))"
  note s0 = createBottomButton_fields heap_createBottomButton empty_page_fields
  have present: "getElementById ?s0 BTN_BOTTOM_ID = Some 0"
    by (simp add: getElementById_def s0)
  have absent: "getElementById ?s0 BTN_TOP_ID = None"
    by (simp add: getElementById_def s0 BTN_ID_distinct)
  have works: "chrome_status ?s0 = Works"
    by (simp add: createBottomButton_fields empty_page_fields)
  obtain elapsed container where run: "initialize ThreeToggle (\<lambda>_. True) ?s0 =
      (Returns (),
       injectButtons ThreeToggle
         (chrome_items ?s0 STORAGE_KEY_TOP = Some (JBool True))
         (chrome_items ?s0 STORAGE_KEY_BOTTOM = Some (JBool True))
         (ThreeToggle = ThreeToggle \<and> chrome_items ?s0 STORAGE_KEY_LEFT = Some (JBool True))
         (elapsed, container) ?s0)"
    using initialize_Works [OF absent works, of ThreeToggle "\<lambda>_. True"] by blast
  have "document (snd (initialize ThreeToggle (\<lambda>_. True) ?s0)) = [0, 1, 2, 3]"
    unfolding run by (simp add: document_injectButtons s0 eval_nat_numeral)
  moreover have "el_id (heap (snd (initialize ThreeToggle (\<lambda>_. True) ?s0)) 0) = BTN_BOTTOM_ID"
    unfolding run by (simp add: heap_injectButtons s0)
  moreover have "el_id (heap (snd (initialize ThreeToggle (\<lambda>_. True) ?s0)) 2) = BTN_BOTTOM_ID"
    unfolding run
    by (simp add: heap_injectButtons heap_create create_fields empty_page_fields
          eval_nat_numeral)
  ultimately show ?thesis using present by simp
qed

section \<open>Double toggle\<close>

text \<open>
  Claim C2, as the code has it. From every starting state, two clicks in a row restore the
  flag's body class and leave the control with the icon, the tooltip and the aria label that
  the apply function sets for the original state of the class. So for every flag and every
  starting state in which the control shows that icon and those labels (as it does after the
  button is created, after the injection and after every click), two clicks in a row return
  the body class, the icon, the tooltip and the aria label to their original values.
\<close>

theorem double_toggle_restores:
  "classList_contains (body_classes (snd (onClick f b (snd (onClick f b s))))) (CLASS f) =
     classList_contains (body_classes s) (CLASS f) \<and>
   innerHTML (heap (snd (onClick f b (snd (onClick f b s)))) b) =
     innerHTML (heap (applyState f (classList_contains (body_classes s) (CLASS f)) (Some b) s) b) \<and>
   attributes (heap (snd (onClick f b (snd (onClick f b s)))) b) ''data-tooltip'' =
     attributes (heap (applyState f (classList_contains (body_classes s) (CLASS f)) (Some b) s) b)
       ''data-tooltip'' \<and>
   attributes (heap (snd (onClick f b (snd (onClick f b s)))) b) ''aria-label'' =
     attributes (heap (applyState f (classList_contains (body_classes s) (CLASS f)) (Some b) s) b)
       ''aria-label'' \<and>
   (innerHTML (heap s b) =
      innerHTML (heap (applyState f (classList_contains (body_classes s) (CLASS f)) (Some b) s) b) \<and>
    attributes (heap s b) ''data-tooltip'' =
      attributes (heap (applyState f (classList_contains (body_classes s) (CLASS f)) (Some b) s) b)
        ''data-tooltip'' \<and>
    attributes (heap s b) ''aria-label'' =
      attributes (heap (applyState f (classList_contains (body_classes s) (CLASS f)) (Some b) s) b)
        ''aria-label'' \<longrightarrow>
    innerHTML (heap (snd (onClick f b (snd (onClick f b s)))) b) = innerHTML (heap s b) \<and>
    attributes (heap (snd (onClick f b (snd (onClick f b s)))) b) ''data-tooltip'' =
      attributes (heap s b) ''data-tooltip'' \<and>
    attributes (heap (snd (onClick f b (snd (onClick f b s)))) b) ''aria-label'' =
      attributes (heap s b) ''aria-label'')"
proof -
  let ?c = "classList_contains (body_classes s) (CLASS f)"
  let ?s1 = "snd (onClick f b s)"
  let ?s2 = "snd (onClick f b ?s1)"
  have button: "heap ?s2 = heap (applyState f ?c (Some b) ?s1)"
    by (rule double_toggle_button)
  have icon: "innerHTML (heap ?s2 b) = innerHTML (heap (applyState f ?c (Some b) s) b)"
    unfolding button by (rule applyState_button_view(1))
  have tip: "attributes (heap ?s2 b) ''data-tooltip'' =
      attributes (heap (applyState f ?c (Some b) s) b) ''data-tooltip''"
    unfolding button by (rule applyState_button_view(2))
  have aria: "attributes (heap ?s2 b) ''aria-label'' =
      attributes (heap (applyState f ?c (Some b) s) b) ''aria-label''"
    unfolding button by (rule applyState_button_view(3))
  from double_toggle_class [of f b s] icon tip aria show ?thesis
    by simp
qed

theorem double_toggle_restores_witness:
  "classList_contains (body_classes (snd (onClick Bottom (Suc 0) (snd (onClick Bottom (Suc 0)
     (injectButtons ThreeToggle False True False (300, True) empty_page)))))) CLASS_BOTTOM \<and>
   innerHTML (heap (snd (onClick Bottom (Suc 0) (snd (onClick Bottom (Suc 0)
     (injectButtons ThreeToggle False True False (300, True) empty_page))))) (Suc 0)) = ICON_UP \<and>
   attributes (heap (snd (onClick Bottom (Suc 0) (snd (onClick Bottom (Suc 0)
     (injectButtons ThreeToggle False True False (300, True) empty_page))))) (Suc 0))
       ''data-tooltip'' = Some LABEL_BOTTOM_SHOW \<and>
   attributes (heap (snd (onClick Bottom (Suc 0) (snd (onClick Bottom (Suc 0)
     (injectButtons ThreeToggle False True False (300, True) empty_page))))) (Suc 0))
       ''aria-label'' = Some LABEL_BOTTOM_SHOW"
  using double_toggle_restores [where f = Bottom and b = "Suc 0"
      and s = "injectButtons ThreeToggle False True False (300, True) empty_page"]
  by (simp add: classList_contains_injectButtons CLASS_distinct heap_injectButtons heap_create
        heap_apply_at create_fields empty_page_fields)

text \<open>
  The claim as it was stated allows any icon and label at the start. A button that was created
  collapsed (down arrow) on a page whose body has lost the marker class since, for instance
  because the host page rewrote the class attribute of the body, ends after two clicks with the
  class absent as before but with the up arrow: the handler reads the state from the body
  class, never from the button.
\<close>

theorem double_toggle_counterexample:
  "\<not> classList_contains
       (body_classes ((snd (createTopButton True empty_page))\<lparr>body_classes := []\<rparr>)) CLASS_TOP \<and>
   innerHTML (heap ((snd (createTopButton True empty_page))\<lparr>body_classes := []\<rparr>) 0) = ICON_DOWN \<and>
   \<not> classList_contains
       (body_classes (snd (onClick Top 0 (snd (onClick Top 0
          ((snd (createTopButton True empty_page))\<lparr>body_classes := []\<rparr>)))))) CLASS_TOP \<and>
   innerHTML (heap (snd (onClick Top 0 (snd (onClick Top 0
          ((snd (createTopButton True empty_page))\<lparr>body_classes := []\<rparr>))))) 0) = ICON_UP \<and>
   ICON_UP \<noteq> ICON_DOWN"
proof -
  let ?s0 = "(snd (createTopButton True empty_page))\<lparr>body_classes := []\<rparr>"
  have absent: "\<not> classList_contains (body_classes ?s0) (CLASS Top)"
    by (simp add: classList_contains_def)
  have before: "innerHTML (heap ?s0 0) = ICON_DOWN"
    by (simp add: heap_create empty_page_fields)
  have after_class:
    "\<not> classList_contains
        (body_classes (snd (onClick Top 0 (snd (onClick Top 0 ?s0))))) (CLASS Top)"
    unfolding double_toggle_class by (rule absent)
  have "innerHTML (heap (snd (onClick Top 0 (snd (onClick Top 0 ?s0)))) 0) =
      innerHTML (heap (applyState Top False (Some 0) (snd (onClick Top 0 ?s0))) 0)"
    unfolding double_toggle_button using absent by simp
  then have after_icon:
    "innerHTML (heap (snd (onClick Top 0 (snd (onClick Top 0 ?s0)))) 0) = ICON_UP"
    by (simp add: heap_apply_at)
  from absent before after_class after_icon show ?thesis
    by (simp add: ICON_distinct)
qed

section \<open>Keyboard shortcuts and clicks\<close>

text \<open>
  Claim C4. For every flag of the variant whose control is in the document (the element its
  id resolves to), a keydown with Alt and Shift held and the flag's letter in either case (the
  keys that lower to the letter, \<open>toLowerCase_letters\<close>) ends
  in exactly the state a click on that control ends in: the handler calls
  \<^verbatim>\<open>preventDefault\<close> and clicks the control. For a control as the script creates it,
  with the flag's handler as its one click listener, that state is the state after the
  handler: body class, icon, labels and persisted value.
\<close>

theorem shortcut_equals_click:
  assumes "f \<in> set (flags v)"
    and "getElementById s (BTN_ID f) = Some b"
    and "altKey e" and "shiftKey e"
    and "toLowerCase (key e) = shortcut_letter f"
  shows "keydown v e s = (True, click b s) \<and>
         (click_listeners (heap s b) = [f] \<longrightarrow> click b s = snd (onClick f b s))"
  using assms
  by - (cases f; cases v; simp add: keydown_def click_if_present_def click_def)

theorem shortcut_equals_click_witness:
  "keydown ThreeToggle \<lparr>altKey = True, shiftKey = True, key = ''H''\<rparr>
       (snd (initialize ThreeToggle (\<lambda>_. True) empty_page)) =
     (True, click 0 (snd (initialize ThreeToggle (\<lambda>_. True) empty_page))) \<and>
   click 0 (snd (initialize ThreeToggle (\<lambda>_. True) empty_page)) =
     snd (onClick Top 0 (snd (initialize ThreeToggle (\<lambda>_. True) empty_page))) \<and>
   keydown ThreeToggle \<lparr>altKey = True, shiftKey = True, key = ''l''\<rparr>
       (snd (initialize ThreeToggle (\<lambda>_. True) empty_page)) =
     (True, click (Suc (Suc 0)) (snd (initialize ThreeToggle (\<lambda>_. True) empty_page))) \<and>
   click (Suc (Suc 0)) (snd (initialize ThreeToggle (\<lambda>_. True) empty_page)) =
     snd (onClick Left (Suc (Suc 0)) (snd (initialize ThreeToggle (\<lambda>_. True) empty_page)))"
  using
    shortcut_equals_click [where f = Top and v = ThreeToggle and b = 0
      and e = "\<lparr>altKey = True, shiftKey = True, key = ''H''\<rparr>"
      and s = "snd (initialize ThreeToggle (\<lambda>_. True) empty_page)"]
    shortcut_equals_click [where f = Left and v = ThreeToggle and b = "Suc (Suc 0)"
      and e = "\<lparr>altKey = True, shiftKey = True, key = ''l''\<rparr>"
      and s = "snd (initialize ThreeToggle (\<lambda>_. True) empty_page)"]
  by (simp add: initialize_empty_page injected_page injected_page_ids toLowerCase_def lower_char_def)

section \<open>The positioning interval never assigns a non-positive offset\<close>

text \<open>
  Claim C7. On every tick of the left button's positioning interval, whatever the host page
  shows (resizer, sidebar and tab rail present or absent, with any bounding boxes), either the
  tick changes nothing, or the computed target offset is strictly greater than zero and the
  tick assigns exactly that offset, in pixels, to the left style of the left button (and
  remembers it in \<open>lastLeftPos\<close>). So no offset that is zero or negative is ever assigned.
\<close>

theorem positioning_tick_positive:
  "positioning_tick num_to_string host s = s \<or>
   (0 < targetLeft host (classList_contains (body_classes s) CLASS_LEFT) \<and>
    (\<exists>btn. getElementById s BTN_LEFT_ID = Some btn \<and>
       positioning_tick num_to_string host s =
         (set_style btn ''left''
            (num_to_string (targetLeft host (classList_contains (body_classes s) CLASS_LEFT))
               @ ''px'') s)
         \<lparr>lastLeftPos :=
            num_to_string (targetLeft host (classList_contains (body_classes s) CLASS_LEFT))
              @ ''px''\<rparr>))"
  by (simp add: positioning_tick_def Let_def split: option.splits)

theorem positioning_tick_positive_witness:
  "positioning_tick (\<lambda>_. ''250'')
     \<lparr>resizer_sidebar = Some \<lparr>rect_left = 5, rect_right = 9\<rparr>,
      view_contents_sidebar = Some \<lparr>rect_left = 0, rect_right = 260\<rparr>,
      ia4_client_sidebar = None, tab_rail = None, ia4_tab_rail = None\<rparr>
     (injectButtons ThreeToggle False False False (300, True) empty_page) =
   injectButtons ThreeToggle False False False (300, True) empty_page \<and>
   style (heap (positioning_tick (\<lambda>_. ''250'')
     \<lparr>resizer_sidebar = Some \<lparr>rect_left = 260, rect_right = 264\<rparr>,
      view_contents_sidebar = Some \<lparr>rect_left = 0, rect_right = 260\<rparr>,
      ia4_client_sidebar = None, tab_rail = None, ia4_tab_rail = None\<rparr>
     (injectButtons ThreeToggle False False False (300, True) empty_page)) (Suc (Suc 0)))
     ''left'' = Some ''250px''"
proof -
  let ?s = "injectButtons ThreeToggle False False False (300, True) empty_page"
  have expanded: "classList_contains (body_classes ?s) CLASS_LEFT = False"
    by (simp add: classList_contains_injectButtons CLASS_distinct empty_page_fields
          classList_contains_Nil)
  have "positioning_tick (\<lambda>_. ''250'')
      \<lparr>resizer_sidebar = Some \<lparr>rect_left = 5, rect_right = 9\<rparr>,
       view_contents_sidebar = Some \<lparr>rect_left = 0, rect_right = 260\<rparr>,
       ia4_client_sidebar = None, tab_rail = None, ia4_tab_rail = None\<rparr> ?s = ?s"
    using positioning_tick_positive [where num_to_string = "\<lambda>_. ''250''"
        and host = "\<lparr>resizer_sidebar = Some \<lparr>rect_left = 5, rect_right = 9\<rparr>,
          view_contents_sidebar = Some \<lparr>rect_left = 0, rect_right = 260\<rparr>,
          ia4_client_sidebar = None, tab_rail = None, ia4_tab_rail = None\<rparr>"
        and s = ?s]
    by (simp add: expanded targetLeft_def Let_def or_else_def)
  moreover have "style (heap (positioning_tick (\<lambda>_. ''250'')
      \<lparr>resizer_sidebar = Some \<lparr>rect_left = 260, rect_right = 264\<rparr>,
       view_contents_sidebar = Some \<lparr>rect_left = 0, rect_right = 260\<rparr>,
       ia4_client_sidebar = None, tab_rail = None, ia4_tab_rail = None\<rparr> ?s) (Suc (Suc 0)))
      ''left'' = Some ''250px''"
    by (simp add: positioning_tick_def injected_page_ids expanded targetLeft_def Let_def
          or_else_def stores_injectButtons lastLeftPos_empty_page set_style_def
          heap_update_element_at)
  ultimately show ?thesis by simp
qed

end
